theory Spec2Isabelle
  imports Complex_Main "HOL-Library.AList" "HOL-Library.Log_Nat"
begin

section \<open>Errors\<close>

text \<open>
  Every exception the modelled Python code can raise is a value of this type; a function
  that can raise returns \<open>py_error + 'a\<close>, with \<open>Inl\<close> for the exception.
\<close>

datatype py_error =
    KeyError
  | TypeError
  | ValueError
  | AttributeError
  | IntCastingNaNError
  | DatabaseError

definition bindE :: "py_error + 'a \<Rightarrow> ('a \<Rightarrow> py_error + 'b) \<Rightarrow> py_error + 'b" where
  "bindE m f = (case m of Inl e \<Rightarrow> Inl e | Inr x \<Rightarrow> f x)"

section \<open>The canonical store as a table sink (data_pipeline.py, load_to_database)\<close>

text \<open>
  \<open>DataFrame.to_sql(name, engine, if_exists=..., index=False)\<close> is the only operation the
  loader performs on the store. A table is the list of its rows; a table that does not exist
  is \<open>None\<close>. The store also keeps the log of the \<open>to_sql\<close> calls that reached the
  database, with the \<open>if_exists\<close> argument and the rows of each.

  Whether a call that reaches the database succeeds is decided by the environment: \<open>ok k\<close>
  says whether the call that finds \<open>k\<close> earlier calls in the log succeeds. A call runs in
  one transaction, so a call that fails leaves the tables as they were.
\<close>

record 'r sql_store =
  tables :: "string \<Rightarrow> 'r list option"
  calls :: "(string \<times> string \<times> 'r list) list"

definition to_sql ::
  "(nat \<Rightarrow> bool) \<Rightarrow> 'r list \<Rightarrow> string \<Rightarrow> string \<Rightarrow> 'r sql_store \<Rightarrow> (py_error + unit) \<times> 'r sql_store"
where
  "to_sql ok rws name if_exists st =
     (if if_exists \<noteq> ''fail'' \<and> if_exists \<noteq> ''replace'' \<and> if_exists \<noteq> ''append''
      then (Inl ValueError, st)
      else
        let st1 = st\<lparr>calls := calls st @ [(name, if_exists, rws)]\<rparr> in
        if \<not> ok (length (calls st)) then (Inl DatabaseError, st1)
        else if if_exists = ''replace''
          then (Inr (), st1\<lparr>tables := (tables st)(name \<mapsto> rws)\<rparr>)
        else
          (case tables st name of
             None \<Rightarrow> (Inr (), st1\<lparr>tables := (tables st)(name \<mapsto> rws)\<rparr>)
           | Some old \<Rightarrow>
               if if_exists = ''append''
               then (Inr (), st1\<lparr>tables := (tables st)(name \<mapsto> old @ rws)\<rparr>)
               else (Inl ValueError, st1)))"

text \<open>
  \<open>range(0, n, c)\<close> for \<open>c > 0\<close>: the start offsets of the chunks. Python raises
  ValueError for \<open>c = 0\<close> and yields nothing for \<open>c < 0\<close>; \<open>load_to_database\<close> below
  makes both cases explicit.
\<close>

function range_step :: "nat \<Rightarrow> nat \<Rightarrow> nat \<Rightarrow> nat list" where
  "range_step i n c = (if 0 < c \<and> i < n then i # range_step (i + c) n c else [])"
  by pat_completeness auto
termination
  by (relation "measure (\<lambda>(i, n, c). n - i)") auto

declare range_step.simps [simp del]

text \<open>
  The body of the \<open>for\<close> loop: \<open>chunk = df.iloc[i : i + chunksize]\<close>, then
  \<open>chunk.to_sql(table_name, engine, if_exists=mode, index=False)\<close>. An exception leaves
  the loop at once.
\<close>

fun load_chunks ::
  "(nat \<Rightarrow> bool) \<Rightarrow> 'r list \<Rightarrow> string \<Rightarrow> string \<Rightarrow> nat \<Rightarrow> nat list \<Rightarrow> 'r sql_store
     \<Rightarrow> (py_error + unit) \<times> 'r sql_store"
where
  "load_chunks ok df table_name mode chunksize [] st = (Inr (), st)"
| "load_chunks ok df table_name mode chunksize (i # is) st =
     (case to_sql ok (take chunksize (drop i df)) table_name mode st of
        (Inl e, st') \<Rightarrow> (Inl e, st')
      | (Inr u, st') \<Rightarrow> load_chunks ok df table_name mode chunksize is st')"

text \<open>
  \<open>load_to_database(df, table_name, mode)\<close>; \<open>chunksize\<close> is
  \<open>config['processing']['chunk_size']\<close>. The \<open>try\<close>/\<open>except Exception\<close> around the
  body turns every exception into the return value \<open>False\<close>.
\<close>

definition load_to_database ::
  "(nat \<Rightarrow> bool) \<Rightarrow> int \<Rightarrow> 'r list \<Rightarrow> string \<Rightarrow> string \<Rightarrow> 'r sql_store \<Rightarrow> bool \<times> 'r sql_store"
where
  "load_to_database ok chunksize df table_name mode st =
     (case to_sql ok [] table_name ''replace'' st of
        (Inl e, st1) \<Rightarrow> (False, st1)
      | (Inr u, st1) \<Rightarrow>
          if chunksize = 0 then (False, st1)
          else if chunksize < 0 then (True, st1)
          else
            (case load_chunks ok df table_name mode (nat chunksize)
                    (range_step 0 (length df) (nat chunksize)) st1 of
               (Inl e, st2) \<Rightarrow> (False, st2)
             | (Inr u, st2) \<Rightarrow> (True, st2)))"

text \<open>The \<open>to_sql\<close> calls that one \<open>load_to_database\<close> added to the log.\<close>

definition calls_of_load ::
  "(nat \<Rightarrow> bool) \<Rightarrow> int \<Rightarrow> 'r list \<Rightarrow> string \<Rightarrow> string \<Rightarrow> 'r sql_store \<Rightarrow> (string \<times> string \<times> 'r list) list"
where
  "calls_of_load ok chunksize df table_name mode st =
     drop (length (calls st)) (calls (snd (load_to_database ok chunksize df table_name mode st)))"

text \<open>The number of chunks of \<open>n\<close> rows at chunk size \<open>c\<close>: \<open>ceil(n / c)\<close>.\<close>

definition ceil_div :: "nat \<Rightarrow> nat \<Rightarrow> nat" where
  "ceil_div n c = (n + c - 1) div c"

text \<open>The table \<open>tn\<close> exists and holds rows of \<open>df\<close> only.\<close>

definition rows_from :: "'r list \<Rightarrow> string \<Rightarrow> 'r sql_store \<Rightarrow> bool" where
  "rows_from df tn st = (\<exists>rws. tables st tn = Some rws \<and> set rws \<subseteq> set df)"

section \<open>Python floats\<close>

text \<open>
  A Python float is an IEEE 754 double. It is modelled by the rational number it denotes;
  an operation computes the exact result and rounds it to the nearest double, a tie going to
  the even significand (\<open>fl\<close>). The model leaves out overflow, subnormal numbers, infinities
  and NaN, which the percentages computed here do not reach.

  \<open>round_half_even\<close> is the integer nearest to an exact rational, a tie going to the even
  neighbour; \<open>ilog2 a\<close> is the exponent of the power of two just below a positive
  \<open>a\<close>, computed from the bit lengths of numerator and denominator.
\<close>

definition round_half_even :: "rat \<Rightarrow> int" where
  "round_half_even x =
     (let f = \<lfloor>x\<rfloor>; d = x - of_int f
      in if d < 1 / 2 then f
         else if 1 / 2 < d then f + 1
         else if even f then f else f + 1)"

definition ilog2 :: "rat \<Rightarrow> int" where
  "ilog2 a =
     (let (p, q) = quotient_of a; k = bitlen p - bitlen q
      in if 2 powi k \<le> a then k else k - 1)"

definition fl :: "rat \<Rightarrow> rat" where
  "fl x =
     (if x = 0 then 0
      else let e = ilog2 \<bar>x\<bar> - 52
           in of_int (round_half_even (x / 2 powi e)) * 2 powi e)"

text \<open>
  \<open>a / b\<close> on Python integers (true division, correctly rounded), and \<open>*\<close>, \<open>+\<close>
  and \<open>/\<close> on floats.
\<close>

definition int_truediv :: "int \<Rightarrow> int \<Rightarrow> rat" where
  "int_truediv a b = fl (of_int a / of_int b)"

definition fmul :: "rat \<Rightarrow> rat \<Rightarrow> rat" where
  "fmul x y = fl (x * y)"

definition fadd :: "rat \<Rightarrow> rat \<Rightarrow> rat" where
  "fadd x y = fl (x + y)"

definition fdiv :: "rat \<Rightarrow> rat \<Rightarrow> rat" where
  "fdiv x y = fl (x / y)"

text \<open>
  \<open>round(x, 2)\<close> on a Python float: the exact value of \<open>x\<close> is rounded to two decimals,
  a tie going to the even digit, and the decimal result is converted to the nearest double.
  On a NumPy float, \<open>round(x, 2)\<close> is NumPy's: \<open>x * 100\<close>, rounded to the nearest
  integer, divided by 100, each step in floats.
\<close>

definition py_round2 :: "rat \<Rightarrow> rat" where
  "py_round2 x = fl (of_int (round_half_even (x * 100)) / 100)"

definition np_round2 :: "rat \<Rightarrow> rat" where
  "np_round2 x = fdiv (of_int (round_half_even (fmul x 100))) 100"

text \<open>
  The percentage \<open>a / b * 100\<close> of two Python integers, as \<open>check_completeness\<close> and
  \<open>validate_data_quality\<close> compute it before rounding.
\<close>

definition percent_of :: "int \<Rightarrow> int \<Rightarrow> rat" where
  "percent_of a b = fmul (int_truediv a b) 100"

text \<open>
  What it means for a float \<open>s\<close> to be the exact number \<open>E\<close> rounded to two decimals:
  \<open>s\<close> is a double (a significand of at most 53 bits times a power of two), it is the
  double next to a number \<open>k / 100\<close> with two decimals, and \<open>k / 100\<close> is within half a
  hundredth of \<open>E\<close>, up to the rounding error of the float operations that lead to it.
\<close>

definition is_double :: "rat \<Rightarrow> bool" where
  "is_double y = (\<exists>m e. y = of_int m * 2 powi e \<and> \<bar>m\<bar> \<le> 2 ^ 53)"

definition rounded_to_two_decimals :: "rat \<Rightarrow> rat \<Rightarrow> bool" where
  "rounded_to_two_decimals E s =
     (\<exists>k. is_double s
        \<and> \<bar>s - of_int k / 100\<bar> \<le> \<bar>of_int k / 100\<bar> / 2 ^ 53
        \<and> \<bar>of_int k / 100 - E\<bar> \<le> 1 / 200 + \<bar>E\<bar> / 2 ^ 51)"

section \<open>The canonical store as the quality monitor reads it (data_quality.py)\<close>

text \<open>
  The monitor queries the tables \<open>drugs\<close>, \<open>sales\<close> and \<open>patients\<close> through the ORM.
  A row carries the columns the monitor reads; a column that can hold SQL NULL is an
  \<open>option\<close>. Dates are day numbers, \<open>created_at\<close> is a timestamp in days as well (with a
  fractional part), \<open>Numeric(10, 2)\<close> columns are exact rationals. \<open>d_id\<close>, \<open>s_id\<close> and
  \<open>p_id\<close> are the primary keys \<open>id\<close>.
\<close>

record drug_row =
  d_id :: int
  drug_code :: "string option"
  drug_name :: "string option"
  manufacturer :: "string option"
  d_unit_price :: "rat option"
  stock_quantity :: "int option"
  expiry_date :: "int option"

record sale_row =
  s_id :: int
  transaction_id :: "string option"
  drug_id :: "int option"
  sale_date :: "int option"
  quantity :: "int option"
  s_unit_price :: "rat option"
  discount :: "rat option"
  total_amount :: "rat option"

record patient_row =
  p_id :: int
  first_name :: "string option"
  last_name :: "string option"
  date_of_birth :: "int option"
  age :: "int option"
  created_at :: "rat option"

record store =
  drugs :: "drug_row list"
  sales :: "sale_row list"
  patients :: "patient_row list"

subsection \<open>check_completeness\<close>

record completeness_report =
  c_table :: string
  total_records :: nat
  complete_records :: nat
  completeness_rate :: rat
  c_timestamp :: string

text \<open>The dictionary \<open>check_completeness\<close> returns: a report, or \<open>{'error': ...}\<close>.\<close>

datatype completeness_result =
    Completeness completeness_report
  | UnknownTable string

text \<open>
  The tail of \<open>check_completeness\<close>, shared by the three tables:
  \<open>completeness_rate = (complete / total * 100) if total > 0 else 0\<close>, and
  \<open>round(completeness_rate, 2)\<close> in the report.
\<close>

definition completeness_dict :: "string \<Rightarrow> string \<Rightarrow> nat \<Rightarrow> nat \<Rightarrow> completeness_result" where
  "completeness_dict now table_name n_total n_complete =
     (let rate = (if 0 < n_total then percent_of (int n_complete) (int n_total) else 0)
      in Completeness
           \<lparr>c_table = table_name, total_records = n_total, complete_records = n_complete,
            completeness_rate = py_round2 rate, c_timestamp = now\<rparr>)"

definition check_completeness :: "string \<Rightarrow> store \<Rightarrow> string \<Rightarrow> completeness_result" where
  "check_completeness now st table_name =
     (if table_name = ''drugs'' then
        completeness_dict now table_name
          (length (drugs st))
          (length (filter (\<lambda>d. drug_code d \<noteq> None \<and> drug_name d \<noteq> None
                              \<and> manufacturer d \<noteq> None \<and> d_unit_price d \<noteq> None) (drugs st)))
      else if table_name = ''sales'' then
        completeness_dict now table_name
          (length (sales st))
          (length (filter (\<lambda>s. transaction_id s \<noteq> None \<and> drug_id s \<noteq> None
                              \<and> sale_date s \<noteq> None \<and> total_amount s \<noteq> None) (sales st)))
      else if table_name = ''patients'' then
        completeness_dict now table_name
          (length (patients st))
          (length (filter (\<lambda>p. first_name p \<noteq> None \<and> last_name p \<noteq> None
                              \<and> date_of_birth p \<noteq> None) (patients st)))
      else UnknownTable table_name)"

text \<open>\<open>report.get('completeness_rate', 0)\<close>.\<close>

definition get_completeness_rate :: "completeness_result \<Rightarrow> rat" where
  "get_completeness_rate r = (case r of Completeness c \<Rightarrow> completeness_rate c | UnknownTable t \<Rightarrow> 0)"

text \<open>
  The completeness the specification describes, as an exact number: the percentage of the
  rows whose required fields are all non-null, 0 for an empty table; the required fields of
  each entity type.
\<close>

definition spec_completeness :: "('a \<Rightarrow> bool) \<Rightarrow> 'a list \<Rightarrow> rat" where
  "spec_completeness required rws =
     (if rws = [] then 0 else of_nat (length (filter required rws)) / of_nat (length rws) * 100)"

definition spec_required_drug :: "drug_row \<Rightarrow> bool" where
  "spec_required_drug d =
     (drug_code d \<noteq> None \<and> drug_name d \<noteq> None \<and> manufacturer d \<noteq> None \<and> d_unit_price d \<noteq> None)"

definition spec_required_sale :: "sale_row \<Rightarrow> bool" where
  "spec_required_sale s =
     (transaction_id s \<noteq> None \<and> drug_id s \<noteq> None \<and> sale_date s \<noteq> None \<and> quantity s \<noteq> None)"

definition spec_required_patient :: "patient_row \<Rightarrow> bool" where
  "spec_required_patient p =
     (first_name p \<noteq> None \<and> last_name p \<noteq> None \<and> date_of_birth p \<noteq> None)"

text \<open>What \<open>check_completeness\<close> requires of a sale: \<open>total_amount\<close> in the place of \<open>quantity\<close>.\<close>

definition code_required_sale :: "sale_row \<Rightarrow> bool" where
  "code_required_sale s =
     (transaction_id s \<noteq> None \<and> drug_id s \<noteq> None \<and> sale_date s \<noteq> None \<and> total_amount s \<noteq> None)"

subsection \<open>SQL predicates of the consistency queries\<close>

text \<open>
  A comparison with NULL is NULL, and a row is selected only when the condition is true.
  \<open>x NOT IN (subquery)\<close> is true for every \<open>x\<close> when the subquery is empty, NULL when
  \<open>x\<close> is NULL, and otherwise says that \<open>x\<close> is none of the (non-null) keys.
\<close>

definition negative_stock :: "drug_row \<Rightarrow> bool" where
  "negative_stock d = (case stock_quantity d of None \<Rightarrow> False | Some q \<Rightarrow> q < 0)"

definition orphaned :: "drug_row list \<Rightarrow> sale_row \<Rightarrow> bool" where
  "orphaned ds s =
     (ds = [] \<or> (case drug_id s of None \<Rightarrow> False | Some i \<Rightarrow> i \<notin> set (map d_id ds)))"

definition future_dated :: "int \<Rightarrow> sale_row \<Rightarrow> bool" where
  "future_dated today s = (case sale_date s of None \<Rightarrow> False | Some d \<Rightarrow> today < d)"

definition expired_in_stock :: "int \<Rightarrow> drug_row \<Rightarrow> bool" where
  "expired_in_stock today d =
     (case (expiry_date d, stock_quantity d) of
        (Some e, Some q) \<Rightarrow> e < today \<and> 0 < q
      | _ \<Rightarrow> False)"

subsection \<open>check_consistency, check_accuracy, check_timeliness\<close>

text \<open>The values of a Python dictionary that holds counts and a timestamp string.\<close>

datatype pyval = PInt int | PStr string

definition check_consistency :: "string \<Rightarrow> int \<Rightarrow> store \<Rightarrow> (string \<times> pyval) list" where
  "check_consistency now today st =
     [(''orphaned_sales'', PInt (int (length (filter (orphaned (drugs st)) (sales st))))),
      (''negative_stock'', PInt (int (length (filter negative_stock (drugs st))))),
      (''future_sales'', PInt (int (length (filter (future_dated today) (sales st))))),
      (''expired_drugs_in_stock'', PInt (int (length (filter (expired_in_stock today) (drugs st))))),
      (''timestamp'', PStr now)]"

record accuracy_issue =
  rule :: string
  violations :: nat
  example :: "string \<times> int"

record accuracy_report =
  total_issues :: nat
  issues :: "accuracy_issue list"
  a_timestamp :: string

text \<open>
  One rule of \<open>check_accuracy\<close>: the violating rows, and an issue with the count and the id
  of the first of them when there is any.
\<close>

definition accuracy_rule :: "string \<Rightarrow> string \<Rightarrow> ('a \<Rightarrow> int) \<Rightarrow> 'a list \<Rightarrow> accuracy_issue list" where
  "accuracy_rule name label key invalid =
     (case invalid of
        [] \<Rightarrow> []
      | x # xs \<Rightarrow> [\<lparr>rule = name, violations = length invalid, example = (label, key x)\<rparr>])"

definition check_accuracy :: "string \<Rightarrow> store \<Rightarrow> accuracy_report" where
  "check_accuracy now st =
     (let invalid_prices =
            filter (\<lambda>d. case d_unit_price d of None \<Rightarrow> False | Some p \<Rightarrow> p \<le> 0) (drugs st);
          invalid_quantities =
            filter (\<lambda>s. case quantity s of None \<Rightarrow> False | Some q \<Rightarrow> q \<le> 0) (sales st);
          invalid_ages =
            filter (\<lambda>p. case age p of None \<Rightarrow> False | Some a \<Rightarrow> a < 0 \<or> 120 < a) (patients st);
          invalid_discounts =
            filter (\<lambda>s. case (discount s, s_unit_price s, quantity s) of
                           (Some dc, Some p, Some q) \<Rightarrow> p * of_int q < dc
                         | _ \<Rightarrow> False) (sales st);
          found =
            accuracy_rule ''Unit price must be positive'' ''Drug ID'' d_id invalid_prices
            @ accuracy_rule ''Sale quantity must be positive'' ''Sale ID'' s_id invalid_quantities
            @ accuracy_rule ''Patient age must be between 0 and 120'' ''Patient ID'' p_id invalid_ages
            @ accuracy_rule ''Discount cannot exceed sale amount'' ''Sale ID'' s_id invalid_discounts
      in \<lparr>total_issues = length found, issues = found, a_timestamp = now\<rparr>)"

record timeliness_report =
  last_sale_date :: "int option"
  days_since_last_sale :: "int option"
  recent_sales_7_days :: nat
  recent_patients_7_days :: nat
  t_timestamp :: string

text \<open>
  \<open>Sale.query.order_by(Sale.sale_date.desc()).first()\<close>, then its \<open>sale_date\<close>. The
  database is PostgreSQL (the \<open>age\<close> column of \<open>patients\<close> is computed by its \<open>age\<close>
  function), where NULL sorts first in descending order: the date is \<open>None\<close> when the table
  is empty or a sale has no date, and the latest date otherwise.
\<close>

definition latest_sale_date :: "sale_row list \<Rightarrow> int option" where
  "latest_sale_date ss =
     (case ss of
        [] \<Rightarrow> None
      | s # rest \<Rightarrow>
          fold (\<lambda>x acc. case (sale_date x, acc) of
                           (Some d, Some m) \<Rightarrow> Some (max d m)
                         | _ \<Rightarrow> None)
               rest (sale_date s))"

definition check_timeliness :: "string \<Rightarrow> int \<Rightarrow> store \<Rightarrow> timeliness_report" where
  "check_timeliness now today st =
     (let last_sale = latest_sale_date (sales st);
          days = (case last_sale of None \<Rightarrow> None | Some d \<Rightarrow> Some (today - d));
          week_ago = today - 7
      in \<lparr>last_sale_date = last_sale,
          days_since_last_sale = days,
          recent_sales_7_days =
            length (filter (\<lambda>s. case sale_date s of None \<Rightarrow> False | Some d \<Rightarrow> week_ago \<le> d) (sales st)),
          recent_patients_7_days =
            length (filter (\<lambda>p. case created_at p of None \<Rightarrow> False | Some t \<Rightarrow> of_int week_ago \<le> t)
                      (patients st)),
          t_timestamp = now\<rparr>)"

subsection \<open>run_comprehensive_quality_check\<close>

text \<open>
  Python's \<open>+\<close> on the values of the consistency dictionary, and the builtin \<open>sum\<close>,
  which starts from the integer 0 and adds the values in the dictionary's insertion order.
  An integer plus a string raises TypeError.
\<close>

fun py_add :: "pyval \<Rightarrow> pyval \<Rightarrow> py_error + pyval" where
  "py_add (PInt a) (PInt b) = Inr (PInt (a + b))"
| "py_add (PStr a) (PStr b) = Inr (PStr (a @ b))"
| "py_add (PInt a) (PStr b) = Inl TypeError"
| "py_add (PStr a) (PInt b) = Inl TypeError"

fun py_sum_from :: "pyval \<Rightarrow> pyval list \<Rightarrow> py_error + pyval" where
  "py_sum_from acc [] = Inr acc"
| "py_sum_from acc (v # vs) = bindE (py_add acc v) (\<lambda>acc'. py_sum_from acc' vs)"

definition py_sum :: "pyval list \<Rightarrow> py_error + pyval" where
  "py_sum vs = py_sum_from (PInt 0) vs"

text \<open>\<open>total_consistency_issues > 0\<close> and \<open>total_consistency_issues * 10\<close> need a number.\<close>

definition py_number :: "pyval \<Rightarrow> py_error + int" where
  "py_number v = (case v of PInt n \<Rightarrow> Inr n | PStr s \<Rightarrow> Inl TypeError)"

definition get_quality_grade :: "rat \<Rightarrow> string" where
  "get_quality_grade score =
     (if 90 \<le> score then ''A''
      else if 80 \<le> score then ''B''
      else if 70 \<le> score then ''C''
      else if 60 \<le> score then ''D''
      else ''F'')"

record quality_score =
  q_completeness :: rat
  q_consistency :: int
  q_accuracy :: int
  q_timeliness :: int
  q_overall :: rat
  q_grade :: string

record quality_report =
  execution_time :: string
  completeness_checks :: "(string \<times> completeness_result) list"
  consistency_check :: "(string \<times> pyval) list"
  accuracy_check :: accuracy_report
  timeliness_check :: timeliness_report
  score :: quality_score

text \<open>
  \<open>run_comprehensive_quality_check\<close>, in the order of the source: the six checks, the
  average completeness (\<open>np.mean\<close> of the three rates: their float sum from left to
  right, divided by their number), the sum over the values of the consistency dictionary,
  the three penalty scores, the weighted sum in floats from left to right. The average and
  the overall score are NumPy floats, rounded by NumPy. Writing the report file is left out.
\<close>

definition run_comprehensive_quality_check :: "string \<Rightarrow> int \<Rightarrow> store \<Rightarrow> py_error + quality_report" where
  "run_comprehensive_quality_check now today st =
     (let tabs = [''drugs'', ''sales'', ''patients''];
          completeness = map (\<lambda>t. (''completeness_'' @ t, check_completeness now st t)) tabs;
          consistency = check_consistency now today st;
          accuracy = check_accuracy now st;
          timeliness = check_timeliness now today st;
          completeness_scores = map (\<lambda>(k, r). get_completeness_rate r) completeness;
          avg_completeness =
            (if completeness_scores = [] then 0
             else fdiv (foldl fadd 0 completeness_scores) (of_nat (length completeness_scores)))
      in bindE (py_sum (map snd consistency)) (\<lambda>summed.
         bindE (py_number summed) (\<lambda>total_consistency_issues.
           let consistency_score =
                 (if 0 < total_consistency_issues
                  then max 0 (100 - total_consistency_issues * 10) else 100);
               accuracy_issues = int (total_issues accuracy);
               accuracy_score =
                 (if 0 < accuracy_issues then max 0 (100 - accuracy_issues * 5) else 100);
               timeliness_score =
                 (case days_since_last_sale timeliness of
                    None \<Rightarrow> 100
                  | Some days \<Rightarrow> if 7 < days then max 0 (100 - (days - 7) * 5) else 100);
               overall_score =
                 fadd (fadd (fadd (fmul avg_completeness (fl (4 / 10)))
                                  (fmul (of_int consistency_score) (fl (3 / 10))))
                            (fmul (of_int accuracy_score) (fl (2 / 10))))
                      (fmul (of_int timeliness_score) (fl (1 / 10)))
           in Inr \<lparr>execution_time = now,
                   completeness_checks = completeness,
                   consistency_check = consistency,
                   accuracy_check = accuracy,
                   timeliness_check = timeliness,
                   score = \<lparr>q_completeness = np_round2 avg_completeness,
                            q_consistency = consistency_score,
                            q_accuracy = accuracy_score,
                            q_timeliness = timeliness_score,
                            q_overall = np_round2 overall_score,
                            q_grade = get_quality_grade overall_score\<rparr>\<rparr>)))"

subsection \<open>fix_data_issues\<close>

datatype fixval = FInt int | FStr string | FDate int

record fix_record =
  fix_table :: string
  fix_id :: int
  fix_field :: string
  old_value :: fixval
  new_value :: fixval
  fix_type :: string

record fix_result =
  fixes_applied :: nat
  details :: "fix_record list"
  f_timestamp :: string

text \<open>The three loops of \<open>fix_data_issues\<close>: what each does to a row, and the record it appends.\<close>

definition clamp_stock :: "drug_row \<Rightarrow> drug_row" where
  "clamp_stock d = (if negative_stock d then d\<lparr>stock_quantity := Some 0\<rparr> else d)"

definition stock_fix :: "drug_row \<Rightarrow> fix_record" where
  "stock_fix d =
     \<lparr>fix_table = ''drugs'', fix_id = d_id d, fix_field = ''stock_quantity'',
      old_value = (case stock_quantity d of Some q \<Rightarrow> FInt q | None \<Rightarrow> FStr ''None''),
      new_value = FInt 0, fix_type = ''Negative to zero''\<rparr>"

definition orphan_fix :: "sale_row \<Rightarrow> fix_record" where
  "orphan_fix s =
     \<lparr>fix_table = ''sales'', fix_id = s_id s, fix_field = ''all'',
      old_value = FStr ''Exists'', new_value = FStr ''Deleted'',
      fix_type = ''Remove orphaned record''\<rparr>"

definition reset_date :: "int \<Rightarrow> sale_row \<Rightarrow> sale_row" where
  "reset_date today s = (if future_dated today s then s\<lparr>sale_date := Some today\<rparr> else s)"

definition date_fix :: "int \<Rightarrow> sale_row \<Rightarrow> fix_record" where
  "date_fix today s =
     \<lparr>fix_table = ''sales'', fix_id = s_id s, fix_field = ''sale_date'',
      old_value = (case sale_date s of Some d \<Rightarrow> FDate d | None \<Rightarrow> FStr ''None''),
      new_value = FDate today, fix_type = ''Future date correction''\<rparr>"

text \<open>
  \<open>fix_data_issues\<close>. The rows are changed in the ORM session, which flushes before each
  query (autoflush), so a later query sees the earlier changes; the store changes only when
  \<open>db.session.commit()\<close> succeeds, which the environment decides (\<open>commit_ok\<close>). The
  function has no \<open>try\<close>: a failing commit raises, and the transaction is lost. With no fix
  to apply, nothing is committed. The result is paired with the store after the call.
\<close>

definition fix_data_issues ::
  "bool \<Rightarrow> string \<Rightarrow> int \<Rightarrow> store \<Rightarrow> (py_error + fix_result) \<times> store"
where
  "fix_data_issues commit_ok now today st =
     (let negative_stock_drugs = filter negative_stock (drugs st);
          fixes1 = map stock_fix negative_stock_drugs;
          drugs1 = map clamp_stock (drugs st);
          orphaned_sales = filter (orphaned drugs1) (sales st);
          fixes2 = map orphan_fix orphaned_sales;
          sales1 = filter (\<lambda>s. \<not> orphaned drugs1 s) (sales st);
          future_sales = filter (future_dated today) sales1;
          fixes3 = map (date_fix today) future_sales;
          sales2 = map (reset_date today) sales1;
          fixes = fixes1 @ fixes2 @ fixes3;
          result = \<lparr>fixes_applied = length fixes, details = fixes, f_timestamp = now\<rparr>
      in if fixes \<noteq> [] then
           (if commit_ok then (Inr result, st\<lparr>drugs := drugs1, sales := sales2\<rparr>)
            else (Inl DatabaseError, st))
         else (Inr result, st))"


text \<open>
  A store with 160 sales, of which the first 23 have every checked field and the others no
  total amount.
\<close>

definition sale_complete_example :: sale_row where
  "sale_complete_example =
     \<lparr>s_id = 1, transaction_id = Some ''T1'', drug_id = Some 1, sale_date = Some 20000,
      quantity = Some 3, s_unit_price = Some 2, discount = None, total_amount = Some 6\<rparr>"

definition sales_store_example :: store where
  "sales_store_example =
     \<lparr>drugs = [],
      sales = replicate 23 sale_complete_example
              @ replicate 137 (sale_complete_example\<lparr>total_amount := None\<rparr>),
      patients = []\<rparr>"

section \<open>Tabular record sets (data_pipeline.py)\<close>

text \<open>
  A pandas DataFrame as the pipeline uses it: the column labels in order, the dtype of each
  column (\<open>object\<close> when none is recorded), and the rows, each the list of its labelled
  cells in column order. A cell is missing (NaN, NaT, None), a string, a number or a
  timestamp (nanoseconds since the epoch); a label without a cell in a row reads as
  missing. A number is the rational it denotes; the float operations of the transforms round
  as Python floats do. The model covers frames whose labels stay
  distinct when they are renamed; of the dtypes only the distinction that the \<open>.str\<close>
  and \<open>.dt\<close> accessors make matters.
\<close>

datatype cell = NA | Str string | Num rat | Ts int

datatype dtype = ObjectT | NumericT | DatetimeT

type_synonym row = "(string \<times> cell) list"

record frame =
  columns :: "string list"
  dtypes :: "(string \<times> dtype) list"
  rows :: "row list"

definition cell_at :: "row \<Rightarrow> string \<Rightarrow> cell" where
  "cell_at r k = (case map_of r k of Some v \<Rightarrow> v | None \<Rightarrow> NA)"

definition dtype_of :: "frame \<Rightarrow> string \<Rightarrow> dtype" where
  "dtype_of df k = (case map_of (dtypes df) k of Some t \<Rightarrow> t | None \<Rightarrow> ObjectT)"

text \<open>
  What the transforms take from pandas and from the clock: the per-cell outcome of
  \<open>pd.to_numeric\<close> and \<open>pd.to_datetime\<close> with \<open>errors='coerce'\<close> on a cell that is not
  already of the target type (\<open>None\<close> for a value that does not parse),
  \<open>pd.Timestamp.today()\<close>, the calendar accessors of \<open>.dt\<close>, and the codes made from
  \<open>uuid.uuid4()\<close>, by row position.
\<close>

record pandas_env =
  parse_numeric :: "cell \<Rightarrow> rat option"
  parse_datetime :: "cell \<Rightarrow> int option"
  today_ts :: int
  year_of :: "int \<Rightarrow> int"
  month_of :: "int \<Rightarrow> int"
  day_of :: "int \<Rightarrow> int"
  day_name_of :: "int \<Rightarrow> string"
  uuid_code :: "nat \<Rightarrow> string"

definition to_numeric_cell :: "pandas_env \<Rightarrow> cell \<Rightarrow> cell" where
  "to_numeric_cell env c =
     (case c of
        NA \<Rightarrow> NA
      | Num x \<Rightarrow> Num x
      | _ \<Rightarrow> (case parse_numeric env c of Some x \<Rightarrow> Num x | None \<Rightarrow> NA))"

definition to_datetime_cell :: "pandas_env \<Rightarrow> cell \<Rightarrow> cell" where
  "to_datetime_cell env c =
     (case c of
        NA \<Rightarrow> NA
      | Ts t \<Rightarrow> Ts t
      | _ \<Rightarrow> (case parse_datetime env c of Some t \<Rightarrow> Ts t | None \<Rightarrow> NA))"

text \<open>\<open>df.columns = [column_mapping.get(col, col) for col in df.columns]\<close>.\<close>

definition rename_col :: "(string \<times> string) list \<Rightarrow> string \<Rightarrow> string" where
  "rename_col m c = (case map_of m c of Some c' \<Rightarrow> c' | None \<Rightarrow> c)"

definition rename_columns :: "(string \<times> string) list \<Rightarrow> frame \<Rightarrow> frame" where
  "rename_columns m df =
     \<lparr>columns = map (rename_col m) (columns df),
      dtypes = map (\<lambda>(k, t). (rename_col m k, t)) (dtypes df),
      rows = map (map (\<lambda>(k, v). (rename_col m k, v))) (rows df)\<rparr>"

text \<open>\<open>df[c] = ...\<close>: the column is replaced, or added at the end, row by row.\<close>

definition assign :: "string \<Rightarrow> dtype \<Rightarrow> (row \<Rightarrow> cell) \<Rightarrow> frame \<Rightarrow> frame" where
  "assign c dt f df =
     \<lparr>columns = (if c \<in> set (columns df) then columns df else columns df @ [c]),
      dtypes = AList.update c dt (dtypes df),
      rows = map (\<lambda>r. AList.update c (f r) r) (rows df)\<rparr>"

text \<open>
  \<open>df.dropna(subset=[...])\<close>: KeyError when a label of the subset is not a column;
  otherwise the rows with a missing cell in one of these columns are removed.
\<close>

definition dropna :: "string list \<Rightarrow> frame \<Rightarrow> py_error + frame" where
  "dropna labels df =
     (if \<exists>c \<in> set labels. c \<notin> set (columns df) then Inl KeyError
      else Inr (df\<lparr>rows := filter (\<lambda>r. \<forall>c \<in> set labels. cell_at r c \<noteq> NA) (rows df)\<rparr>))"

text \<open>A float cast to int truncates towards zero.\<close>

definition trunc_rat :: "rat \<Rightarrow> int" where
  "trunc_rat x = (if 0 \<le> x then \<lfloor>x\<rfloor> else \<lceil>x\<rceil>)"

definition ns_per_day :: int where
  "ns_per_day = 86400000000000"

text \<open>The product of two numeric cells; a missing operand gives a missing result.\<close>

definition cell_mul :: "cell \<Rightarrow> cell \<Rightarrow> cell" where
  "cell_mul a b = (case (a, b) of (Num x, Num y) \<Rightarrow> Num (fmul x y) | _ \<Rightarrow> NA)"

subsection \<open>transform_drugs\<close>

definition drugs_column_mapping :: "(string \<times> string) list" where
  "drugs_column_mapping =
     [(''DrugCode'', ''drug_code''), (''DrugName'', ''drug_name''),
      (''GenericName'', ''generic_name''), (''Manufacturer'', ''manufacturer''),
      (''Category'', ''category''), (''UnitPrice'', ''unit_price''),
      (''Stock'', ''stock_quantity''), (''ExpiryDate'', ''expiry_date''),
      (''Drug_ID'', ''drug_code''), (''Product_Name'', ''drug_name''),
      (''MFR'', ''manufacturer'')]"

text \<open>
  Lines 158 to 190: the renaming and the type coercions. \<open>stock_quantity\<close> goes through
  \<open>to_numeric\<close>, \<open>fillna(0)\<close> and \<open>astype(int)\<close>.
\<close>

definition drugs_coerce :: "pandas_env \<Rightarrow> frame \<Rightarrow> frame" where
  "drugs_coerce env df =
     (let df1 = rename_columns drugs_column_mapping df;
          df2 = (if ''unit_price'' \<in> set (columns df1)
                 then assign ''unit_price'' NumericT (\<lambda>r. to_numeric_cell env (cell_at r ''unit_price'')) df1
                 else df1);
          df3 = (if ''stock_quantity'' \<in> set (columns df2)
                 then assign ''stock_quantity'' NumericT
                        (\<lambda>r. case to_numeric_cell env (cell_at r ''stock_quantity'') of
                                Num x \<Rightarrow> Num (of_int (trunc_rat x))
                              | _ \<Rightarrow> Num 0) df2
                 else df2);
          df4 = (if ''expiry_date'' \<in> set (columns df3)
                 then assign ''expiry_date'' DatetimeT (\<lambda>r. to_datetime_cell env (cell_at r ''expiry_date'')) df3
                 else df3)
      in df4)"

text \<open>Line 192: \<open>df_clean.dropna(subset=['drug_code', 'drug_name'])\<close>.\<close>

definition drugs_dropna :: "frame \<Rightarrow> py_error + frame" where
  "drugs_dropna df = dropna [''drug_code'', ''drug_name''] df"

text \<open>Lines 194 to 201: the default columns.\<close>

definition drugs_defaults :: "frame \<Rightarrow> frame" where
  "drugs_defaults df =
     (let df1 = (if ''category'' \<notin> set (columns df)
                 then assign ''category'' ObjectT (\<lambda>r. Str ''Prescription'') df else df);
          df2 = (if ''min_stock_level'' \<notin> set (columns df1)
                 then assign ''min_stock_level'' NumericT (\<lambda>r. Num 10) df1 else df1);
          df3 = (if ''max_stock_level'' \<notin> set (columns df2)
                 then assign ''max_stock_level'' NumericT (\<lambda>r. Num 1000) df2 else df2)
      in df3)"

text \<open>
  Lines 203 to 208: the derived fields \<open>stock_value\<close> and \<open>days_to_expiry\<close>. Reading a
  column that is not there raises KeyError.
\<close>

definition drugs_derive :: "pandas_env \<Rightarrow> frame \<Rightarrow> py_error + frame" where
  "drugs_derive env df =
     (if ''unit_price'' \<notin> set (columns df) \<or> ''stock_quantity'' \<notin> set (columns df)
      then Inl KeyError
      else
        let df1 = assign ''stock_value'' NumericT
                    (\<lambda>r. cell_mul (cell_at r ''unit_price'') (cell_at r ''stock_quantity'')) df;
            df2 = (if ''expiry_date'' \<in> set (columns df1)
                   then assign ''days_to_expiry'' NumericT
                          (\<lambda>r. case cell_at r ''expiry_date'' of
                                  Ts t \<Rightarrow> Num (of_int ((t - today_ts env) div ns_per_day))
                                | _ \<Rightarrow> NA) df1
                   else df1)
        in Inr df2)"

definition transform_drugs :: "pandas_env \<Rightarrow> frame \<Rightarrow> py_error + frame" where
  "transform_drugs env df =
     bindE (drugs_dropna (drugs_coerce env df)) (\<lambda>d. drugs_derive env (drugs_defaults d))"

subsection \<open>transform_sales\<close>

definition sales_column_mapping :: "(string \<times> string) list" where
  "sales_column_mapping =
     [(''TransactionID'', ''transaction_id''), (''SaleDate'', ''sale_date''),
      (''DrugID'', ''drug_id''), (''Quantity'', ''quantity''), (''Price'', ''unit_price''),
      (''Total'', ''total_amount''), (''Pharmacy'', ''pharmacy_name''),
      (''PaymentMethod'', ''payment_method'')]"

text \<open>Lines 216 to 242: the renaming, the coercions and the backfilled \<open>total_amount\<close>.\<close>

definition sales_coerce :: "pandas_env \<Rightarrow> frame \<Rightarrow> frame" where
  "sales_coerce env df =
     (let df1 = rename_columns sales_column_mapping df;
          df2 = (if ''sale_date'' \<in> set (columns df1)
                 then assign ''sale_date'' DatetimeT (\<lambda>r. to_datetime_cell env (cell_at r ''sale_date'')) df1
                 else df1);
          df3 = fold (\<lambda>col d. if col \<in> set (columns d)
                               then assign col NumericT (\<lambda>r. to_numeric_cell env (cell_at r col)) d
                               else d)
                  [''quantity'', ''unit_price'', ''total_amount'', ''discount'', ''tax_amount''] df2;
          df4 = (if ''total_amount'' \<notin> set (columns df3)
                    \<and> (\<forall>col \<in> set [''unit_price'', ''quantity'']. col \<in> set (columns df3))
                 then assign ''total_amount'' NumericT
                        (\<lambda>r. cell_mul (cell_at r ''unit_price'') (cell_at r ''quantity'')) df3
                 else df3)
      in df4)"

text \<open>Lines 244 to 247: the calendar parts of \<open>sale_date\<close>, missing where the date is.\<close>

definition sales_calendar :: "pandas_env \<Rightarrow> frame \<Rightarrow> py_error + frame" where
  "sales_calendar env df =
     (if ''sale_date'' \<notin> set (columns df) then Inl KeyError
      else if dtype_of df ''sale_date'' \<noteq> DatetimeT then Inl AttributeError
      else
        let df1 = assign ''year'' NumericT
                    (\<lambda>r. case cell_at r ''sale_date'' of Ts t \<Rightarrow> Num (of_int (year_of env t)) | _ \<Rightarrow> NA) df;
            df2 = assign ''month'' NumericT
                    (\<lambda>r. case cell_at r ''sale_date'' of Ts t \<Rightarrow> Num (of_int (month_of env t)) | _ \<Rightarrow> NA) df1;
            df3 = assign ''day'' NumericT
                    (\<lambda>r. case cell_at r ''sale_date'' of Ts t \<Rightarrow> Num (of_int (day_of env t)) | _ \<Rightarrow> NA) df2;
            df4 = assign ''day_of_week'' ObjectT
                    (\<lambda>r. case cell_at r ''sale_date'' of Ts t \<Rightarrow> Str (day_name_of env t) | _ \<Rightarrow> NA) df3
        in Inr df4)"

text \<open>
  Lines 249 and 250: \<open>dropna\<close> on the three key columns, then
  \<open>df_clean[df_clean['quantity'] > 0]\<close>; a missing quantity compares false.
\<close>

definition sales_filter :: "frame \<Rightarrow> py_error + frame" where
  "sales_filter df =
     bindE (dropna [''transaction_id'', ''drug_id'', ''sale_date''] df) (\<lambda>d.
       if ''quantity'' \<notin> set (columns d) then Inl KeyError
       else Inr (d\<lparr>rows := filter (\<lambda>r. case cell_at r ''quantity'' of Num x \<Rightarrow> 0 < x | _ \<Rightarrow> False)
                                 (rows d)\<rparr>))"

definition transform_sales :: "pandas_env \<Rightarrow> frame \<Rightarrow> py_error + frame" where
  "transform_sales env df = bindE (sales_calendar env (sales_coerce env df)) sales_filter"

subsection \<open>transform_patients\<close>

definition patients_column_mapping :: "(string \<times> string) list" where
  "patients_column_mapping =
     [(''PatientID'', ''patient_code''), (''FirstName'', ''first_name''),
      (''LastName'', ''last_name''), (''DOB'', ''date_of_birth''), (''Gender'', ''gender''),
      (''Email'', ''email''), (''Phone'', ''phone''), (''Condition'', ''primary_condition''),
      (''Insurance'', ''insurance_id'')]"

definition gender_mapping :: "(string \<times> string) list" where
  "gender_mapping =
     [(''M'', ''Male''), (''MALE'', ''Male''), (''F'', ''Female''), (''FEMALE'', ''Female''),
      (''O'', ''Other''), (''OTHER'', ''Other'')]"

text \<open>\<open>str.upper\<close>, on ASCII letters.\<close>

definition upper_char :: "char \<Rightarrow> char" where
  "upper_char c =
     (let n = (of_char c :: nat) in if 97 \<le> n \<and> n \<le> 122 then char_of (n - 32) else c)"

text \<open>
  Lines 273 to 280: \<open>date_of_birth\<close> parsed, then
  \<open>age = ((today - date_of_birth).dt.days / 365.25).astype(int)\<close>. The quotient is missing
  where the date is, and \<open>astype(int)\<close> raises on a column with a missing value.
\<close>

definition patients_age :: "pandas_env \<Rightarrow> frame \<Rightarrow> py_error + frame" where
  "patients_age env df =
     (if ''date_of_birth'' \<in> set (columns df) then
        let df1 = assign ''date_of_birth'' DatetimeT
                    (\<lambda>r. to_datetime_cell env (cell_at r ''date_of_birth'')) df
        in if \<exists>r \<in> set (rows df1). cell_at r ''date_of_birth'' = NA then Inl IntCastingNaNError
           else Inr (assign ''age'' NumericT
                  (\<lambda>r. case cell_at r ''date_of_birth'' of
                          Ts t \<Rightarrow> Num (of_int (trunc_rat
                                    (fdiv (of_int ((today_ts env - t) div ns_per_day)) (1461 / 4))))
                        | _ \<Rightarrow> NA) df1)
      else Inr df)"

text \<open>
  Lines 282 to 296: the email kept only where it is a string that contains \<open>@\<close>, the gender
  mapped through the table. The \<open>.str\<close> accessor raises AttributeError on a column that does
  not hold strings.
\<close>

definition patients_email :: "frame \<Rightarrow> py_error + frame" where
  "patients_email df =
     (if ''email'' \<in> set (columns df) then
        if dtype_of df ''email'' \<noteq> ObjectT then Inl AttributeError
        else Inr (assign ''email'' ObjectT
               (\<lambda>r. case cell_at r ''email'' of
                       Str s \<Rightarrow> if CHR ''@'' \<in> set s then Str s else NA
                     | _ \<Rightarrow> NA) df)
      else Inr df)"

definition patients_gender :: "frame \<Rightarrow> py_error + frame" where
  "patients_gender df =
     (if ''gender'' \<in> set (columns df) then
        if dtype_of df ''gender'' \<noteq> ObjectT then Inl AttributeError
        else Inr (assign ''gender'' ObjectT
               (\<lambda>r. case cell_at r ''gender'' of
                       Str s \<Rightarrow> (case map_of gender_mapping (map upper_char s) of
                                   Some g \<Rightarrow> Str g | None \<Rightarrow> NA)
                     | _ \<Rightarrow> NA) df)
      else Inr df)"

text \<open>Line 298 and lines 300 to 305: the rows dropped, then the generated patient codes.\<close>

definition patients_dropna :: "frame \<Rightarrow> py_error + frame" where
  "patients_dropna df = dropna [''first_name'', ''last_name'', ''date_of_birth''] df"

definition patients_codes :: "pandas_env \<Rightarrow> frame \<Rightarrow> frame" where
  "patients_codes env df =
     (if ''patient_code'' \<notin> set (columns df)
      then \<lparr>columns = columns df @ [''patient_code''],
            dtypes = AList.update ''patient_code'' ObjectT (dtypes df),
            rows = map (\<lambda>(i, r). AList.update ''patient_code'' (Str (uuid_code env i)) r)
                     (zip [0..<length (rows df)] (rows df))\<rparr>
      else df)"

definition transform_patients :: "pandas_env \<Rightarrow> frame \<Rightarrow> py_error + frame" where
  "transform_patients env df =
     bindE (patients_age env (rename_columns patients_column_mapping df)) (\<lambda>d1.
     bindE (patients_email d1) (\<lambda>d2.
     bindE (patients_gender d2) (\<lambda>d3.
     bindE (patients_dropna d3) (\<lambda>d4.
     Inr (patients_codes env d4)))))"

subsection \<open>validate_data_quality\<close>

datatype issue_text = MissingValues nat | NonNumericValues nat | InvalidDates nat

record issue =
  i_field :: string
  i_issue :: issue_text
  i_severity :: string

record validation_report =
  v_data_type :: string
  v_timestamp :: string
  v_total_records :: nat
  v_valid_records :: int
  v_invalid_records :: nat
  v_quality_score :: rat
  v_issues :: "issue list"

text \<open>The three field lists of an entity type; empty for a type that is not known.\<close>

definition required_fields :: "string \<Rightarrow> string list" where
  "required_fields data_type =
     (if data_type = ''drugs'' then [''drug_code'', ''drug_name'', ''manufacturer'', ''unit_price'']
      else if data_type = ''sales'' then [''transaction_id'', ''drug_id'', ''sale_date'', ''quantity'']
      else if data_type = ''patients'' then [''first_name'', ''last_name'', ''date_of_birth'']
      else [])"

definition numeric_fields :: "string \<Rightarrow> string list" where
  "numeric_fields data_type =
     (if data_type = ''drugs'' then [''unit_price'', ''stock_quantity'']
      else if data_type = ''sales'' then [''quantity'', ''unit_price'', ''total_amount'']
      else if data_type = ''patients'' then [''age'']
      else [])"

definition date_fields :: "string \<Rightarrow> string list" where
  "date_fields data_type =
     (if data_type = ''drugs'' then [''expiry_date'']
      else if data_type = ''sales'' then [''sale_date'']
      else if data_type = ''patients'' then [''date_of_birth'']
      else [])"

text \<open>
  One pass of a \<open>for field in ...\<close> loop: nothing for a field that is not a column or has a
  count of 0, one issue otherwise.
\<close>

definition field_issue ::
  "frame \<Rightarrow> (row \<Rightarrow> bool) \<Rightarrow> (nat \<Rightarrow> issue_text) \<Rightarrow> string \<Rightarrow> string \<Rightarrow> issue list"
where
  "field_issue df bad text sev field =
     (if field \<in> set (columns df) then
        let n = length (filter bad (rows df))
        in if 0 < n then [\<lparr>i_field = field, i_issue = text n, i_severity = sev\<rparr>] else []
      else [])"

text \<open>
  \<open>validate_data_quality(df, data_type)\<close>; the score is
  \<open>round((valid_records / total_records) * 100, 2)\<close> on Python integers. The report is
  also written to a file, which is left out.
\<close>

definition validate_data_quality :: "pandas_env \<Rightarrow> string \<Rightarrow> frame \<Rightarrow> string \<Rightarrow> validation_report" where
  "validate_data_quality env now df data_type =
     (let total = length (rows df);
          found =
            concat (map (\<lambda>f. field_issue df (\<lambda>r. cell_at r f = NA) MissingValues ''High'' f)
                      (required_fields data_type))
            @ concat (map (\<lambda>f. field_issue df (\<lambda>r. to_numeric_cell env (cell_at r f) = NA)
                                 NonNumericValues ''Medium'' f)
                      (numeric_fields data_type))
            @ concat (map (\<lambda>f. field_issue df (\<lambda>r. cell_at r f = NA) InvalidDates ''Medium'' f)
                      (date_fields data_type));
          total_issues = length found;
          valid = int total - int total_issues
      in \<lparr>v_data_type = data_type, v_timestamp = now, v_total_records = total,
          v_valid_records = valid, v_invalid_records = total_issues,
          v_quality_score = (if 0 < total then py_round2 (percent_of valid (int total)) else 0),
          v_issues = found\<rparr>)"

subsection \<open>An environment for concrete runs\<close>

text \<open>
  A fixed environment: the proleptic Gregorian calendar on timestamps, no string parsed (the
  concrete frames carry numbers and timestamps already), today at 2024-07-01 00:00, and
  the codes \<open>PAT-00000000\<close>, \<open>PAT-00000001\<close>, ... by row position.
\<close>

definition civil_of_days :: "int \<Rightarrow> int \<times> int \<times> int" where
  "civil_of_days z0 =
     (let z = z0 + 719468;
          era = z div 146097;
          doe = z mod 146097;
          yoe = (doe - doe div 1460 + doe div 36524 - doe div 146096) div 365;
          y = yoe + era * 400;
          doy = doe - (365 * yoe + yoe div 4 - yoe div 100);
          mp = (5 * doy + 2) div 153;
          d = doy - (153 * mp + 2) div 5 + 1;
          m = (if mp < 10 then mp + 3 else mp - 9)
      in (if m \<le> 2 then y + 1 else y, m, d))"

definition week_day_name :: "int \<Rightarrow> string" where
  "week_day_name z =
     [''Thursday'', ''Friday'', ''Saturday'', ''Sunday'', ''Monday'', ''Tuesday'', ''Wednesday'']
       ! nat (z mod 7)"

definition demo_env :: pandas_env where
  "demo_env =
     \<lparr>parse_numeric = (\<lambda>c. None),
      parse_datetime = (\<lambda>c. None),
      today_ts = 19905 * ns_per_day,
      year_of = (\<lambda>t. fst (civil_of_days (t div ns_per_day))),
      month_of = (\<lambda>t. fst (snd (civil_of_days (t div ns_per_day)))),
      day_of = (\<lambda>t. snd (snd (civil_of_days (t div ns_per_day)))),
      day_name_of = (\<lambda>t. week_day_name (t div ns_per_day)),
      uuid_code = (\<lambda>i. ''PAT-0000000'' @ [char_of (48 + i mod 10)])\<rparr>"

text \<open>The labels of a frame stay distinct under a column mapping.\<close>

definition labels_distinct :: "(string \<times> string) list \<Rightarrow> frame \<Rightarrow> bool" where
  "labels_distinct m df = distinct (map (rename_col m) (columns df))"

text \<open>No row of the frame has a missing cell in column \<open>k\<close>.\<close>

definition nonnull :: "string \<Rightarrow> frame \<Rightarrow> bool" where
  "nonnull k df = (\<forall>r \<in> set (rows df). cell_at r k \<noteq> NA)"

text \<open>The cells of the given columns, row by row, of a frame and of a result.\<close>

definition cells_of :: "string list \<Rightarrow> frame \<Rightarrow> cell list list" where
  "cells_of cols df = map (\<lambda>r. map (cell_at r) cols) (rows df)"

definition result_cells :: "string list \<Rightarrow> py_error + frame \<Rightarrow> py_error + cell list list" where
  "result_cells cols res = (case res of Inl e \<Rightarrow> Inl e | Inr d \<Rightarrow> Inr (cells_of cols d))"

text \<open>
  Concrete record sets. Two drugs, the first without manufacturer and unit price, the second
  without drug code. Two sales on 2024-03-15, the second without transaction id. Two
  patients, the second with a date of birth that does not parse.
\<close>

definition drugs_example :: frame where
  "drugs_example =
     \<lparr>columns = [''DrugCode'', ''DrugName'', ''Manufacturer'', ''UnitPrice'', ''Stock''],
      dtypes = [],
      rows = [[(''DrugCode'', Str ''D1''), (''DrugName'', Str ''Aspirin''), (''Manufacturer'', NA),
               (''UnitPrice'', NA), (''Stock'', Num 5)],
              [(''DrugCode'', NA), (''DrugName'', Str ''Ibuprofen''), (''Manufacturer'', Str ''Acme''),
               (''UnitPrice'', Num 3), (''Stock'', Num 5)]]\<rparr>"

definition sales_example :: frame where
  "sales_example =
     \<lparr>columns = [''TransactionID'', ''SaleDate'', ''DrugID'', ''Quantity'', ''Price''],
      dtypes = [],
      rows = [[(''TransactionID'', Str ''T1''), (''SaleDate'', Ts (19797 * ns_per_day)),
               (''DrugID'', Num 1), (''Quantity'', Num 2), (''Price'', Num 5)],
              [(''TransactionID'', NA), (''SaleDate'', Ts (19797 * ns_per_day)),
               (''DrugID'', Num 1), (''Quantity'', Num 2), (''Price'', Num 5)]]\<rparr>"

definition patients_example :: frame where
  "patients_example =
     \<lparr>columns = [''FirstName'', ''LastName'', ''DOB''],
      dtypes = [],
      rows = [[(''FirstName'', Str ''Ann''), (''LastName'', Str ''Lee''),
               (''DOB'', Ts (7305 * ns_per_day))],
              [(''FirstName'', Str ''Bob''), (''LastName'', Str ''Ray''),
               (''DOB'', Str ''not a date'')]]\<rparr>"

text \<open>The first patient alone.\<close>

definition patients_clean_example :: frame where
  "patients_clean_example = patients_example\<lparr>rows := take 1 (rows patients_example)\<rparr>"

text \<open>
  Four thousand drugs: 3999 complete rows and one row in which every field is missing, so
  that each of the seven checked fields of a drug has an issue.
\<close>

definition drug_row_example :: row where
  "drug_row_example =
     [(''drug_code'', Str ''D1''), (''drug_name'', Str ''Aspirin''), (''manufacturer'', Str ''Acme''),
      (''unit_price'', Num 2), (''stock_quantity'', Num 5), (''expiry_date'', Ts (20000 * ns_per_day))]"

definition drugs_large_example :: frame where
  "drugs_large_example =
     \<lparr>columns = [''drug_code'', ''drug_name'', ''manufacturer'', ''unit_price'', ''stock_quantity'',
                 ''expiry_date''],
      dtypes = [(''unit_price'', NumericT), (''stock_quantity'', NumericT),
                (''expiry_date'', DatetimeT)],
      rows = replicate 3999 drug_row_example
             @ [[(''drug_code'', NA), (''drug_name'', NA), (''manufacturer'', NA),
                 (''unit_price'', NA), (''stock_quantity'', NA), (''expiry_date'', NA)]]\<rparr>"

section \<open>Properties of the loader\<close>

lemma ceil_div_add: "0 < c \<Longrightarrow> ceil_div (m + c) c = Suc (ceil_div m c)"
proof -
  assume c: "0 < c"
  have e: "m + c + c - 1 = (m + c - 1) + c" using c by arith
  have "ceil_div (m + c) c = ((m + c - 1) + c) div c"
    by (simp only: ceil_div_def e)
  also have "\<dots> = (m + c - 1) div c + 1"
    using c by (subst div_add_self2) simp_all
  finally show ?thesis by (simp only: ceil_div_def Suc_eq_plus1)
qed

lemma ceil_div_zero: "0 < c \<Longrightarrow> ceil_div 0 c = 0"
  by (simp add: ceil_div_def)

lemma range_step_eq:
  "0 < c \<Longrightarrow> range_step i n c = map (\<lambda>j. i + j * c) [0..<ceil_div (n - i) c]"
proof (induction i n c rule: range_step.induct)
  case (1 i n c)
  show ?case
  proof (cases "i < n")
    case False
    then have "n - i = 0" by simp
    then show ?thesis
      using 1(2) False by (subst range_step.simps) (simp add: ceil_div_zero)
  next
    case True
    define m where "m = ceil_div (n - (i + c)) c"
    have ih: "range_step (i + c) n c = map (\<lambda>j. i + c + j * c) [0..<m]"
      using 1 True by (simp add: m_def)
    have "ceil_div (n - i) c = Suc m"
    proof (cases "i + c \<le> n")
      case True
      then have "n - i = (n - (i + c)) + c" by arith
      then show ?thesis using ceil_div_add [OF 1(2), of "n - (i + c)"] by (simp add: m_def)
    next
      case False
      then have z: "n - (i + c) = 0" by arith
      have e: "n - i + c - 1 = (n - i - 1) + c" using True by arith
      have s: "n - i - 1 < c" using False True by arith
      have "ceil_div (n - i) c = ((n - i - 1) + c) div c"
        by (simp only: ceil_div_def e)
      also have "\<dots> = (n - i - 1) div c + 1"
        using 1(2) by (subst div_add_self2) simp_all
      also have "\<dots> = 1" using s by simp
      finally show ?thesis using 1(2) by (simp add: m_def z ceil_div_zero)
    qed
    moreover have "[0..<Suc m] = 0 # map Suc [0..<m]"
      by (simp add: upt_conv_Cons map_Suc_upt del: upt_Suc)
    ultimately show ?thesis
      using True 1(2) ih
      by (subst range_step.simps) (simp add: o_def add.assoc del: upt_Suc)
  qed
qed

lemma concat_chunks:
  "concat (map (\<lambda>j. take c (drop (j * c) df)) [0..<p]) = take (p * c) df"
proof (induction p)
  case 0
  then show ?case by simp
next
  case (Suc p)
  have "take (p * c + c) df = take (p * c) df @ take c (drop (p * c) df)"
    by (rule take_add)
  then show ?case using Suc by (simp add: add.commute)
qed

lemma to_sql_append_ok:
  "ok (length (calls st)) \<Longrightarrow> tables st tn = Some old \<Longrightarrow>
   to_sql ok rws tn ''append'' st =
     (Inr (), st\<lparr>calls := calls st @ [(tn, ''append'', rws)],
                 tables := (tables st)(tn \<mapsto> old @ rws)\<rparr>)"
  by (simp add: to_sql_def Let_def)

lemma to_sql_append_fail:
  "\<not> ok (length (calls st)) \<Longrightarrow>
   to_sql ok rws tn ''append'' st =
     (Inl DatabaseError, st\<lparr>calls := calls st @ [(tn, ''append'', rws)]\<rparr>)"
  by (simp add: to_sql_def Let_def)

lemma load_chunks_append_ok:
  "(\<forall>j<length is. ok (length (calls st) + j)) \<Longrightarrow> tables st tn = Some old \<Longrightarrow>
   load_chunks ok df tn ''append'' c is st =
     (Inr (), st\<lparr>calls := calls st @ map (\<lambda>i. (tn, ''append'', take c (drop i df))) is,
                 tables := (tables st)(tn \<mapsto> old @ concat (map (\<lambda>i. take c (drop i df)) is))\<rparr>)"
proof (induction "is" arbitrary: st old)
  case Nil
  have "(tables st)(tn \<mapsto> old) = tables st" using Nil.prems(2) by (rule map_upd_triv)
  then show ?case by simp
next
  case (Cons i "is")
  have o0: "ok (length (calls st))" using Cons.prems(1) by force
  let ?st' = "st\<lparr>calls := calls st @ [(tn, ''append'', take c (drop i df))],
                 tables := (tables st)(tn \<mapsto> old @ take c (drop i df))\<rparr>"
  have w: "to_sql ok (take c (drop i df)) tn ''append'' st = (Inr (), ?st')"
    using o0 Cons.prems(2) by (rule to_sql_append_ok)
  have a: "\<forall>j<length is. ok (length (calls ?st') + j)"
  proof (intro allI impI)
    fix j assume "j < length is"
    then have "Suc j < length (i # is)" by simp
    then have "ok (length (calls st) + Suc j)" using Cons.prems(1) by blast
    then show "ok (length (calls ?st') + j)" by simp
  qed
  have b: "tables ?st' tn = Some (old @ take c (drop i df))" by simp
  show ?case
    using Cons.IH [OF a b] w by (simp cong: if_cong)
qed

lemma load_chunks_append_fail:
  "p < length is \<Longrightarrow> (\<forall>j<p. ok (length (calls st) + j)) \<Longrightarrow> \<not> ok (length (calls st) + p) \<Longrightarrow>
   tables st tn = Some old \<Longrightarrow>
   load_chunks ok df tn ''append'' c is st =
     (Inl DatabaseError,
      st\<lparr>calls := calls st @ map (\<lambda>i. (tn, ''append'', take c (drop i df))) (take (Suc p) is),
         tables := (tables st)(tn \<mapsto> old @ concat (map (\<lambda>i. take c (drop i df)) (take p is)))\<rparr>)"
proof (induction "is" arbitrary: st old p)
  case Nil
  then show ?case by simp
next
  case (Cons i "is")
  show ?case
  proof (cases p)
    case 0
    have t: "(tables st)(tn \<mapsto> old) = tables st" using Cons.prems(4) by (rule map_upd_triv)
    have "\<not> ok (length (calls st))" using Cons.prems(3) 0 by simp
    then show ?thesis
      using 0 t by (simp add: to_sql_append_fail)
  next
    case (Suc q)
    have o0: "ok (length (calls st))" using Cons.prems(2) Suc by force
    let ?st' = "st\<lparr>calls := calls st @ [(tn, ''append'', take c (drop i df))],
                   tables := (tables st)(tn \<mapsto> old @ take c (drop i df))\<rparr>"
    have w: "to_sql ok (take c (drop i df)) tn ''append'' st = (Inr (), ?st')"
      using o0 Cons.prems(4) by (rule to_sql_append_ok)
    have q: "q < length is" using Cons.prems(1) Suc by simp
    have a: "\<forall>j<q. ok (length (calls ?st') + j)"
    proof (intro allI impI)
      fix j assume "j < q"
      then have "Suc j < p" using Suc by simp
      then have "ok (length (calls st) + Suc j)" using Cons.prems(2) by blast
      then show "ok (length (calls ?st') + j)" by simp
    qed
    have n: "\<not> ok (length (calls ?st') + q)" using Cons.prems(3) Suc by simp
    have b: "tables ?st' tn = Some (old @ take c (drop i df))" by simp
    show ?thesis
      using Cons.IH [OF q a n b] w Suc by (simp cong: if_cong)
  qed
qed


lemma ceil_div_covers: "0 < c \<Longrightarrow> n \<le> ceil_div n c * c"
proof -
  assume c: "0 < c"
  have "(n + c - 1) mod c < c" using c by simp
  moreover have "(n + c - 1) div c * c + (n + c - 1) mod c = n + c - 1"
    by simp
  ultimately show ?thesis unfolding ceil_div_def by arith
qed

lemma to_sql_replace_ok:
  "ok (length (calls st)) \<Longrightarrow>
   to_sql ok rws tn ''replace'' st =
     (Inr (), st\<lparr>calls := calls st @ [(tn, ''replace'', rws)],
                 tables := (tables st)(tn \<mapsto> rws)\<rparr>)"
  by (simp add: to_sql_def Let_def)

lemma to_sql_calls_prefix:
  "\<exists>xs. calls (snd (to_sql ok rws tn m st)) = calls st @ xs"
  by (simp add: to_sql_def Let_def split: option.splits)

lemma load_chunks_calls_prefix:
  "\<exists>xs. calls (snd (load_chunks ok df tn m c is st)) = calls st @ xs"
proof (induction "is" arbitrary: st)
  case Nil
  then show ?case by simp
next
  case (Cons i "is")
  obtain r st' where w: "to_sql ok (take c (drop i df)) tn m st = (r, st')"
    by (cases "to_sql ok (take c (drop i df)) tn m st")
  obtain xs where xs: "calls st' = calls st @ xs"
    using to_sql_calls_prefix [of ok "take c (drop i df)" tn m st] w by auto
  show ?case
  proof (cases r)
    case (Inl e)
    then show ?thesis using w xs by simp
  next
    case (Inr u)
    obtain ys where "calls (snd (load_chunks ok df tn m c is st')) = calls st' @ ys"
      using Cons.IH [of st'] by blast
    then show ?thesis using w xs Inr by simp
  qed
qed

lemma to_sql_rows_from:
  "rows_from df tn st \<Longrightarrow> set rws \<subseteq> set df \<Longrightarrow> rows_from df tn (snd (to_sql ok rws tn m st))"
  by (auto simp add: to_sql_def Let_def rows_from_def)

lemma load_chunks_rows_from:
  "rows_from df tn st \<Longrightarrow> rows_from df tn (snd (load_chunks ok df tn m c is st))"
proof (induction "is" arbitrary: st)
  case Nil
  then show ?case by simp
next
  case (Cons i "is")
  obtain r st' where w: "to_sql ok (take c (drop i df)) tn m st = (r, st')"
    by (cases "to_sql ok (take c (drop i df)) tn m st")
  have "set (take c (drop i df)) \<subseteq> set df"
    by (meson set_take_subset set_drop_subset subset_trans)
  then have st': "rows_from df tn st'"
    using to_sql_rows_from [OF Cons.prems, of "take c (drop i df)" ok m] w by simp
  show ?case
  proof (cases r)
    case (Inl e)
    then show ?thesis using w st' by simp
  next
    case (Inr u)
    then show ?thesis using w Cons.IH [OF st'] by simp
  qed
qed

text \<open>
  Claim C7. Loading \<open>N\<close> rows at a positive chunk size \<open>C\<close> in the default mode
  \<open>append\<close>, once the initial schema write has succeeded: when every chunk write
  succeeds, the load returns \<open>True\<close>, the table holds all the rows and exactly
  \<open>ceil(N / C)\<close> chunk writes were issued, chunk \<open>j\<close> carrying the rows
  \<open>j * C ..< j * C + C\<close>; when chunk \<open>k\<close> is the first whose write fails, the load
  returns \<open>False\<close> instead of raising, the table holds the rows of chunks
  \<open>1 .. k - 1\<close> (nothing is rolled back), and \<open>k\<close> chunk writes were issued.
\<close>

theorem load_issues_ceil_chunk_writes:
  assumes c: "0 < chunksize" and s: "ok (length (calls st))"
  shows "((\<forall>j. 1 \<le> j \<and> j \<le> ceil_div (length df) (nat chunksize) \<longrightarrow> ok (length (calls st) + j)) \<longrightarrow>
            fst (load_to_database ok chunksize df tn ''append'' st) = True
          \<and> tables (snd (load_to_database ok chunksize df tn ''append'' st)) tn = Some df
          \<and> calls_of_load ok chunksize df tn ''append'' st =
              (tn, ''replace'', []) #
              map (\<lambda>j. (tn, ''append'', take (nat chunksize) (drop (j * nat chunksize) df)))
                [0..<ceil_div (length df) (nat chunksize)]
          \<and> length (tl (calls_of_load ok chunksize df tn ''append'' st)) =
              ceil_div (length df) (nat chunksize))
       \<and> (\<forall>k. 1 \<le> k \<and> k \<le> ceil_div (length df) (nat chunksize)
              \<and> (\<forall>j. 1 \<le> j \<and> j < k \<longrightarrow> ok (length (calls st) + j))
              \<and> \<not> ok (length (calls st) + k) \<longrightarrow>
            fst (load_to_database ok chunksize df tn ''append'' st) = False
          \<and> tables (snd (load_to_database ok chunksize df tn ''append'' st)) tn =
              Some (take ((k - 1) * nat chunksize) df)
          \<and> length (tl (calls_of_load ok chunksize df tn ''append'' st)) = k)"
proof -
  define C where "C = nat chunksize"
  define n where "n = ceil_div (length df) C"
  define st1 where
    "st1 = st\<lparr>calls := calls st @ [(tn, ''replace'', [])], tables := (tables st)(tn \<mapsto> [])\<rparr>"
  have Cpos: "0 < C" using c by (simp add: C_def)
  have w0: "to_sql ok [] tn ''replace'' st = (Inr (), st1)"
    using s by (simp add: to_sql_replace_ok st1_def)
  have rs: "range_step 0 (length df) C = map (\<lambda>j. j * C) [0..<n]"
    using range_step_eq [OF Cpos, of 0 "length df"] by (simp add: n_def)
  have ld: "load_to_database ok chunksize df tn ''append'' st =
      (case load_chunks ok df tn ''append'' C (map (\<lambda>j. j * C) [0..<n]) st1 of
         (Inl e, st2) \<Rightarrow> (False, st2) | (Inr u, st2) \<Rightarrow> (True, st2))"
    using c rs by (simp add: load_to_database_def w0 C_def)
  have t1: "tables st1 tn = Some []" by (simp add: st1_def)
  have l1: "length (calls st1) = Suc (length (calls st))" by (simp add: st1_def)
  have A: "fst (load_to_database ok chunksize df tn ''append'' st) = True
          \<and> tables (snd (load_to_database ok chunksize df tn ''append'' st)) tn = Some df
          \<and> calls_of_load ok chunksize df tn ''append'' st =
              (tn, ''replace'', []) #
              map (\<lambda>j. (tn, ''append'', take C (drop (j * C) df))) [0..<n]
          \<and> length (tl (calls_of_load ok chunksize df tn ''append'' st)) = n"
    if all: "\<forall>j. 1 \<le> j \<and> j \<le> n \<longrightarrow> ok (length (calls st) + j)"
  proof -
    have a: "\<forall>j<length (map (\<lambda>j. j * C) [0..<n]). ok (length (calls st1) + j)"
    proof (intro allI impI)
      fix j assume "j < length (map (\<lambda>j. j * C) [0..<n])"
      then have "1 \<le> Suc j \<and> Suc j \<le> n" by simp
      then have "ok (length (calls st) + Suc j)" using all by blast
      then show "ok (length (calls st1) + j)" by (simp add: l1)
    qed
    have full: "take (n * C) df = df"
      using ceil_div_covers [OF Cpos, of "length df"] by (simp add: n_def)
    have cc: "concat (map (\<lambda>i. take C (drop i df)) (map (\<lambda>j. j * C) [0..<n])) = df"
      using concat_chunks [of C df n] full by (simp add: o_def)
    show ?thesis
      unfolding calls_of_load_def ld load_chunks_append_ok [OF a t1]
      using cc by (simp add: st1_def o_def)
  qed
  have B: "fst (load_to_database ok chunksize df tn ''append'' st) = False
          \<and> tables (snd (load_to_database ok chunksize df tn ''append'' st)) tn =
              Some (take ((k - 1) * C) df)
          \<and> length (tl (calls_of_load ok chunksize df tn ''append'' st)) = k"
    if k: "1 \<le> k" "k \<le> n" and pre: "\<forall>j. 1 \<le> j \<and> j < k \<longrightarrow> ok (length (calls st) + j)"
      and bad: "\<not> ok (length (calls st) + k)" for k
  proof -
    have p: "k - 1 < length (map (\<lambda>j. j * C) [0..<n])" using k by simp
    have a: "\<forall>j<k - 1. ok (length (calls st1) + j)"
    proof (intro allI impI)
      fix j assume "j < k - 1"
      then have "1 \<le> Suc j \<and> Suc j < k" by arith
      then have "ok (length (calls st) + Suc j)" using pre by blast
      then show "ok (length (calls st1) + j)" by (simp add: l1)
    qed
    have n: "\<not> ok (length (calls st1) + (k - 1))" using bad k by (simp add: l1)
    have tk: "take (k - 1) (map (\<lambda>j. j * C) [0..<n]) = map (\<lambda>j. j * C) [0..<k - 1]"
      using k by (simp add: take_map min_def)
    have cc: "concat (map (\<lambda>i. take C (drop i df)) (take (k - 1) (map (\<lambda>j. j * C) [0..<n])))
                = take ((k - 1) * C) df"
      unfolding tk using concat_chunks [of C df "k - 1"] by (simp add: o_def)
    have len: "length (take (Suc (k - 1)) (map (\<lambda>j. j * C) [0..<n])) = k"
      using k by simp
    show ?thesis
      unfolding calls_of_load_def ld load_chunks_append_fail [OF p a n t1] cc
      using len by (simp add: st1_def)
  qed
  show ?thesis
    using A B unfolding C_def [symmetric] n_def [symmetric] by blast
qed

text \<open>
  Claim C10. Whatever the mode, the first call \<open>load_to_database\<close> issues replaces the
  target table by an empty one. When that call succeeds, the outcome of the load does not
  depend on the rows the table held before, and the table holds rows of the loaded record
  set only.
\<close>

theorem load_replaces_target_first:
  assumes s: "ok (length (calls st))"
  shows "calls_of_load ok chunksize df tn mode st \<noteq> []
       \<and> hd (calls_of_load ok chunksize df tn mode st) = (tn, ''replace'', [])
       \<and> (\<forall>old. load_to_database ok chunksize df tn mode (st\<lparr>tables := (tables st)(tn \<mapsto> old)\<rparr>)
                = load_to_database ok chunksize df tn mode (st\<lparr>tables := (tables st)(tn := None)\<rparr>))
       \<and> (\<exists>rws. tables (snd (load_to_database ok chunksize df tn mode st)) tn = Some rws
                \<and> set rws \<subseteq> set df)"
proof -
  define st1 where
    "st1 = st\<lparr>calls := calls st @ [(tn, ''replace'', [])], tables := (tables st)(tn \<mapsto> [])\<rparr>"
  have w0: "to_sql ok [] tn ''replace'' st = (Inr (), st1)"
    using s by (simp add: to_sql_replace_ok st1_def)
  have r1: "rows_from df tn st1" by (simp add: rows_from_def st1_def)
  obtain xs where xs: "calls (snd (load_chunks ok df tn mode (nat chunksize)
        (range_step 0 (length df) (nat chunksize)) st1)) = calls st1 @ xs"
    using load_chunks_calls_prefix by blast
  have r2: "rows_from df tn (snd (load_chunks ok df tn mode (nat chunksize)
        (range_step 0 (length df) (nat chunksize)) st1))"
    using r1 by (rule load_chunks_rows_from)
  have cl: "\<exists>ys. calls (snd (load_to_database ok chunksize df tn mode st)) =
        calls st @ (tn, ''replace'', []) # ys"
    using xs by (auto simp add: load_to_database_def w0 st1_def split: prod.splits sum.splits)
  have rf: "rows_from df tn (snd (load_to_database ok chunksize df tn mode st))"
    using r1 r2 by (auto simp add: load_to_database_def w0 split: prod.splits sum.splits)
  have ind: "load_to_database ok chunksize df tn mode (st\<lparr>tables := (tables st)(tn \<mapsto> old)\<rparr>)
      = load_to_database ok chunksize df tn mode (st\<lparr>tables := (tables st)(tn := None)\<rparr>)" for old
    using s by (simp add: load_to_database_def to_sql_replace_ok)
  show ?thesis
    using cl rf ind by (auto simp add: calls_of_load_def rows_from_def)
qed

theorem load_issues_ceil_chunk_writes_witness:
  "fst (load_to_database (\<lambda>k. True) 2 [1, 2, 3, 4, 5 :: nat] ''drugs'' ''append''
          \<lparr>tables = Map.empty, calls = []\<rparr>) = True
   \<and> tables (snd (load_to_database (\<lambda>k. True) 2 [1, 2, 3, 4, 5 :: nat] ''drugs'' ''append''
          \<lparr>tables = Map.empty, calls = []\<rparr>)) ''drugs'' = Some [1, 2, 3, 4, 5]
   \<and> length (tl (calls_of_load (\<lambda>k. True) 2 [1, 2, 3, 4, 5 :: nat] ''drugs'' ''append''
          \<lparr>tables = Map.empty, calls = []\<rparr>)) = 3
   \<and> fst (load_to_database (\<lambda>k. k \<noteq> 2) 2 [1, 2, 3, 4, 5 :: nat] ''drugs'' ''append''
          \<lparr>tables = Map.empty, calls = []\<rparr>) = False
   \<and> tables (snd (load_to_database (\<lambda>k. k \<noteq> 2) 2 [1, 2, 3, 4, 5 :: nat] ''drugs'' ''append''
          \<lparr>tables = Map.empty, calls = []\<rparr>)) ''drugs'' = Some [1, 2]
   \<and> length (tl (calls_of_load (\<lambda>k. k \<noteq> 2) 2 [1, 2, 3, 4, 5 :: nat] ''drugs'' ''append''
          \<lparr>tables = Map.empty, calls = []\<rparr>)) = 2"
proof -
  have cd: "ceil_div (length [1, 2, 3, 4, 5 :: nat]) (nat 2) = 3"
    by (simp add: ceil_div_def)
  have h: "(0::int) < 2" by simp
  have a: "fst (load_to_database (\<lambda>k. True) 2 [1, 2, 3, 4, 5 :: nat] ''drugs'' ''append''
          \<lparr>tables = Map.empty, calls = []\<rparr>) = True
   \<and> tables (snd (load_to_database (\<lambda>k. True) 2 [1, 2, 3, 4, 5 :: nat] ''drugs'' ''append''
          \<lparr>tables = Map.empty, calls = []\<rparr>)) ''drugs'' = Some [1, 2, 3, 4, 5]
   \<and> length (tl (calls_of_load (\<lambda>k. True) 2 [1, 2, 3, 4, 5 :: nat] ''drugs'' ''append''
          \<lparr>tables = Map.empty, calls = []\<rparr>)) = 3"
    using load_issues_ceil_chunk_writes [OF h, of "\<lambda>k. True" "\<lparr>tables = Map.empty, calls = []\<rparr>"
        "[1, 2, 3, 4, 5 :: nat]" "''drugs''"]
    unfolding cd by simp
  have b: "fst (load_to_database (\<lambda>k. k \<noteq> 2) 2 [1, 2, 3, 4, 5 :: nat] ''drugs'' ''append''
          \<lparr>tables = Map.empty, calls = []\<rparr>) = False
   \<and> tables (snd (load_to_database (\<lambda>k. k \<noteq> 2) 2 [1, 2, 3, 4, 5 :: nat] ''drugs'' ''append''
          \<lparr>tables = Map.empty, calls = []\<rparr>)) ''drugs'' = Some [1, 2]
   \<and> length (tl (calls_of_load (\<lambda>k. k \<noteq> 2) 2 [1, 2, 3, 4, 5 :: nat] ''drugs'' ''append''
          \<lparr>tables = Map.empty, calls = []\<rparr>)) = 2"
  proof -
    have "1 \<le> (2::nat) \<and> 2 \<le> ceil_div (length [1, 2, 3, 4, 5 :: nat]) (nat 2)
        \<and> (\<forall>j. 1 \<le> j \<and> j < 2 \<longrightarrow> j \<noteq> (2::nat)) \<and> \<not> (2::nat) \<noteq> 2"
      unfolding cd by simp
    then show ?thesis
      using load_issues_ceil_chunk_writes [OF h, of "\<lambda>k. k \<noteq> 2" "\<lparr>tables = Map.empty, calls = []\<rparr>"
        "[1, 2, 3, 4, 5 :: nat]" "''drugs''", THEN conjunct2, THEN spec, of 2]
      by simp
  qed
  show ?thesis using a b by blast
qed

theorem load_replaces_target_first_witness:
  "load_to_database (\<lambda>k. True) 2 [3, 4 :: nat] ''sales'' ''append''
       \<lparr>tables = [''sales'' \<mapsto> [1, 2]], calls = []\<rparr>
     = (True, \<lparr>tables = [''sales'' \<mapsto> [3, 4]],
               calls = [(''sales'', ''replace'', []), (''sales'', ''append'', [3, 4])]\<rparr>)
   \<and> hd (calls_of_load (\<lambda>k. True) 2 [3, 4 :: nat] ''sales'' ''append''
       \<lparr>tables = [''sales'' \<mapsto> [1, 2]], calls = []\<rparr>) = (''sales'', ''replace'', [])"
proof -
  have e: "load_to_database (\<lambda>k. True) 2 [3, 4 :: nat] ''sales'' ''append''
       \<lparr>tables = [''sales'' \<mapsto> [1, 2]], calls = []\<rparr>
     = (True, \<lparr>tables = [''sales'' \<mapsto> [3, 4]],
               calls = [(''sales'', ''replace'', []), (''sales'', ''append'', [3, 4])]\<rparr>)"
    by (simp add: load_to_database_def to_sql_def Let_def range_step.simps)
  show ?thesis
    using e load_replaces_target_first [of "\<lambda>k. True" "\<lparr>tables = [''sales'' \<mapsto> [1, 2]], calls = []\<rparr>"
        2 "[3, 4 :: nat]" "''sales''" "''append''"]
    by simp
qed

section \<open>Properties of the float model\<close>

lemma round_half_even_error: "\<bar>of_int (round_half_even y) - y\<bar> \<le> 1 / 2"
proof -
  have a: "of_int \<lfloor>y\<rfloor> \<le> y" by (rule of_int_floor_le)
  have b: "y < of_int \<lfloor>y\<rfloor> + 1" using floor_correct [of y] by simp
  show ?thesis
    using a b by (simp add: round_half_even_def Let_def abs_if) linarith
qed

lemma bitlen_rat_bounds:
  assumes "0 < (p::int)"
  shows "(2::rat) powi (bitlen p - 1) \<le> of_int p" and "of_int p < (2::rat) powi bitlen p"
proof -
  have b1: "1 \<le> bitlen p" using assms by (simp add: bitlen_alt_def)
  have lo: "2 ^ nat (bitlen p - 1) \<le> p" and hi: "p < 2 ^ nat (bitlen p)"
    using bitlen_bounds [OF assms] by blast+
  have "(of_int (2 ^ nat (bitlen p - 1)) :: rat) \<le> of_int p"
    using lo by (simp only: of_int_le_iff)
  then show "(2::rat) powi (bitlen p - 1) \<le> of_int p"
    using b1 by (simp add: power_int_nonneg_exp)
  have "(of_int p :: rat) < of_int (2 ^ nat (bitlen p))"
    using hi by (simp only: of_int_less_iff)
  then show "of_int p < (2::rat) powi bitlen p"
    using b1 by (simp add: power_int_nonneg_exp)
qed

lemma ilog2_bounds:
  assumes "0 < a"
  shows "2 powi ilog2 a \<le> a" and "a < 2 powi (ilog2 a + 1)"
proof -
  obtain p q where pq: "quotient_of a = (p, q)" by (cases "quotient_of a")
  have q: "0 < q" using pq by (rule quotient_of_denom_pos)
  have a: "a = of_int p / of_int q" using pq by (rule quotient_of_div)
  have p: "0 < p"
    using assms q unfolding a by (simp add: zero_less_divide_iff)
  define k where "k = bitlen p - bitlen q"
  have Q: "(0::rat) < of_int q" using q by simp
  have plo: "(2::rat) powi (bitlen p - 1) \<le> of_int p" and phi: "of_int p < (2::rat) powi bitlen p"
    using bitlen_rat_bounds [OF p] by blast+
  have qlo: "(2::rat) powi (bitlen q - 1) \<le> of_int q" and qhi: "of_int q < (2::rat) powi bitlen q"
    using bitlen_rat_bounds [OF q] by blast+
  have pos: "(0::rat) < 2 powi n" for n by (simp add: zero_less_power_int)
  have up: "a < 2 powi (k + 1)"
  proof -
    have "of_int p < (2::rat) powi bitlen p" by (rule phi)
    also have "\<dots> = 2 powi (k + 1) * 2 powi (bitlen q - 1)"
      by (simp add: k_def power_int_add [symmetric])
    also have "\<dots> \<le> 2 powi (k + 1) * of_int q"
      using qlo pos [of "k + 1"] by (simp add: mult_left_mono)
    finally show ?thesis
      unfolding a using Q by (simp add: pos_divide_less_eq)
  qed
  have low: "2 powi (k - 1) \<le> a"
  proof -
    have "2 powi (k - 1) * of_int q \<le> (2::rat) powi (k - 1) * 2 powi bitlen q"
      using qhi pos [of "k - 1"] by (simp add: mult_left_mono)
    also have "\<dots> = 2 powi (bitlen p - 1)"
      by (simp add: k_def power_int_add [symmetric])
    also have "\<dots> \<le> of_int p" by (rule plo)
    finally show ?thesis
      unfolding a using Q by (simp add: pos_le_divide_eq)
  qed
  have il: "ilog2 a = (if 2 powi k \<le> a then k else k - 1)"
    by (simp add: ilog2_def pq k_def Let_def)
  show "2 powi ilog2 a \<le> a"
    using low by (simp add: il)
  show "a < 2 powi (ilog2 a + 1)"
    using up by (simp add: il not_le)
qed

lemma fl_scaled:
  assumes "x \<noteq> 0"
  defines "P \<equiv> (2::rat) powi (ilog2 \<bar>x\<bar> - 52)"
  shows "0 < P" and "P * 2 ^ 52 \<le> \<bar>x\<bar>" and "\<bar>x\<bar> < P * 2 ^ 53"
    and "fl x = of_int (round_half_even (x / P)) * P"
proof -
  have ax: "0 < \<bar>x\<bar>" using assms(1) by simp
  show P: "0 < P" by (simp add: P_def zero_less_power_int)
  have e1: "P * 2 ^ 52 = 2 powi ilog2 \<bar>x\<bar>"
  proof -
    have "P * 2 powi 52 = 2 powi (ilog2 \<bar>x\<bar> - 52 + 52)"
      unfolding P_def by (rule power_int_add [symmetric]) simp
    then show ?thesis by simp
  qed
  have e2: "P * 2 ^ 53 = 2 powi (ilog2 \<bar>x\<bar> + 1)"
  proof -
    have "P * 2 powi 53 = 2 powi (ilog2 \<bar>x\<bar> - 52 + 53)"
      unfolding P_def by (rule power_int_add [symmetric]) simp
    moreover have "l - 52 + 53 = l + 1" if "l = ilog2 \<bar>x\<bar>" for l :: int
      by simp
    ultimately show ?thesis by (simp only: power_int_numeral)
  qed
  show "P * 2 ^ 52 \<le> \<bar>x\<bar>"
    unfolding e1 using ilog2_bounds(1) [OF ax] .
  show "\<bar>x\<bar> < P * 2 ^ 53"
    unfolding e2 using ilog2_bounds(2) [OF ax] .
  show "fl x = of_int (round_half_even (x / P)) * P"
    using assms(1) by (simp add: fl_def P_def Let_def)
qed

lemma fl_error: "\<bar>fl x - x\<bar> \<le> \<bar>x\<bar> / 2 ^ 53"
proof (cases "x = 0")
  case True
  then show ?thesis by (simp add: fl_def)
next
  case False
  define P where "P = (2::rat) powi (ilog2 \<bar>x\<bar> - 52)"
  define m where "m = round_half_even (x / P)"
  have P: "0 < P" and lo: "P * 2 ^ 52 \<le> \<bar>x\<bar>" and f: "fl x = of_int m * P"
    using fl_scaled [OF False] by (simp_all add: P_def m_def)
  have "fl x - x = (of_int m - x / P) * P"
    using P by (simp add: f field_simps)
  then have "\<bar>fl x - x\<bar> = \<bar>of_int m - x / P\<bar> * P"
    using P by (simp add: abs_mult)
  also have "\<dots> \<le> 1 / 2 * P"
    using round_half_even_error [of "x / P"] P by (simp add: m_def mult_right_mono)
  also have "\<dots> \<le> \<bar>x\<bar> / 2 ^ 53"
    using lo by simp
  finally show ?thesis .
qed

lemma fl_is_double: "is_double (fl x)"
proof (cases "x = 0")
  case True
  have "(0::rat) = of_int 0 * 2 powi 0 \<and> \<bar>0::int\<bar> \<le> 2 ^ 53" by simp
  then have "is_double 0" unfolding is_double_def by blast
  then show ?thesis using True by (simp add: fl_def)
next
  case False
  define P where "P = (2::rat) powi (ilog2 \<bar>x\<bar> - 52)"
  define m where "m = round_half_even (x / P)"
  have P: "0 < P" and hi: "\<bar>x\<bar> < P * 2 ^ 53" and f: "fl x = of_int m * P"
    using fl_scaled [OF False] by (simp_all add: P_def m_def)
  have y: "\<bar>x / P\<bar> < 2 ^ 53"
    using hi P by (simp add: pos_divide_less_eq mult.commute)
  have "\<bar>of_int m :: rat\<bar> \<le> \<bar>of_int m - x / P\<bar> + \<bar>x / P\<bar>"
    by linarith
  also have "\<dots> < 1 / 2 + 2 ^ 53"
    using round_half_even_error [of "x / P"] y by (simp add: m_def)
  finally have "(of_int \<bar>m\<bar> :: rat) < of_int (2 ^ 53) + 1 / 2"
    by simp
  then have "(of_int \<bar>m\<bar> :: rat) < of_int (2 ^ 53 + 1)"
    by simp
  then have "\<bar>m\<bar> < 2 ^ 53 + 1"
    by (simp only: of_int_less_iff)
  then have "\<bar>m\<bar> \<le> 2 ^ 53" by simp
  then show ?thesis
    unfolding is_double_def f P_def by blast
qed

lemma percent_of_error:
  assumes "0 < b"
  shows "\<bar>percent_of a b - of_int a / of_int b * 100\<bar> \<le> \<bar>of_int a / of_int b * 100\<bar> / 2 ^ 51"
proof -
  define r where "r = (of_int a / of_int b :: rat)"
  define q where "q = fl r"
  define A where "A = \<bar>r\<bar>"
  define u where "u = (1 / 2 ^ 53 :: rat)"
  have u: "0 < u" "u \<le> 1" by (simp_all add: u_def)
  have A: "0 \<le> A" by (simp add: A_def)
  have e1: "\<bar>q - r\<bar> \<le> A * u"
    using fl_error [of r] by (simp add: q_def A_def u_def)
  have "\<bar>q\<bar> \<le> \<bar>q - r\<bar> + \<bar>r\<bar>" by simp
  also have "\<dots> \<le> A * u + A" using e1 by (simp add: A_def)
  also have "\<dots> \<le> 2 * A"
  proof -
    have "A * u \<le> A * 1" using A u(2) by (rule mult_left_mono [OF _ _, rotated]) 
    then show ?thesis by simp
  qed
  finally have qb: "\<bar>q\<bar> \<le> 2 * A" .
  have e2: "\<bar>fl (q * 100) - q * 100\<bar> \<le> 200 * A * u"
  proof -
    have "\<bar>fl (q * 100) - q * 100\<bar> \<le> \<bar>q * 100\<bar> * u"
      using fl_error [of "q * 100"] by (simp add: u_def)
    also have "\<dots> = \<bar>q\<bar> * (100 * u)" by (simp add: abs_mult)
    also have "\<dots> \<le> 2 * A * (100 * u)"
      using qb u(1) by (intro mult_right_mono) simp_all
    finally show ?thesis by simp
  qed
  have "percent_of a b - r * 100 = (fl (q * 100) - q * 100) + (q - r) * 100"
    by (simp add: percent_of_def int_truediv_def fmul_def q_def r_def algebra_simps)
  then have "\<bar>percent_of a b - r * 100\<bar> \<le> \<bar>fl (q * 100) - q * 100\<bar> + \<bar>(q - r) * 100\<bar>"
    by (simp only: abs_triangle_ineq)
  also have "\<dots> \<le> 200 * A * u + A * u * 100"
    using e1 e2 by (simp add: abs_mult)
  also have "\<dots> = 300 * A * u" by simp
  also have "\<dots> \<le> 400 * A * u"
    using A u(1) by (simp add: mult_right_mono)
  also have "\<dots> = \<bar>r * 100\<bar> / 2 ^ 51"
    by (simp add: A_def u_def abs_mult)
  finally show ?thesis by (simp add: r_def)
qed

lemma py_round2_rounded:
  assumes "\<bar>x - E\<bar> \<le> \<bar>E\<bar> / 2 ^ 51"
  shows "rounded_to_two_decimals E (py_round2 x)"
proof -
  define k where "k = round_half_even (x * 100)"
  have "\<bar>of_int k - x * 100\<bar> \<le> 1 / 2"
    unfolding k_def by (rule round_half_even_error)
  moreover have "of_int k / 100 - x = (of_int k - x * 100) / 100"
    by (simp add: field_simps)
  ultimately have c: "\<bar>of_int k / 100 - x\<bar> \<le> 1 / 200"
    by (simp only: abs_divide)
  have "\<bar>of_int k / 100 - E\<bar> \<le> \<bar>of_int k / 100 - x\<bar> + \<bar>x - E\<bar>"
    by simp
  then have d: "\<bar>of_int k / 100 - E\<bar> \<le> 1 / 200 + \<bar>E\<bar> / 2 ^ 51"
    using c assms by linarith
  have s: "py_round2 x = fl (of_int k / 100)"
    by (simp add: py_round2_def k_def)
  show ?thesis
    unfolding rounded_to_two_decimals_def s
    using fl_is_double [of "of_int k / 100"] fl_error [of "of_int k / 100"] d by blast
qed

lemma percent_rounded:
  "0 < b \<Longrightarrow> rounded_to_two_decimals (of_int a / of_int b * 100) (py_round2 (percent_of a b))"
  by (rule py_round2_rounded) (rule percent_of_error)

lemma percent_of_same: "0 < n \<Longrightarrow> py_round2 (percent_of n n) = 100"
proof -
  assume n: "0 < n"
  have one: "fl 1 = 1" by code_simp
  have hundred: "fl 100 = 100" by code_simp
  have r: "round_half_even 10000 = 10000" by (simp add: round_half_even_def)
  have "percent_of n n = 100"
    using n by (simp add: percent_of_def int_truediv_def fmul_def one hundred)
  then show ?thesis
    by (simp add: py_round2_def r hundred)
qed

lemma percent_of_zero: "py_round2 (percent_of 0 n) = 0"
  by (simp add: percent_of_def int_truediv_def fmul_def fl_def py_round2_def round_half_even_def)

section \<open>Properties of the quality monitor\<close>

text \<open>
  Claim C2. \<open>run_comprehensive_quality_check\<close> never returns a score: the dictionary of
  \<open>check_consistency\<close> ends with the entry \<open>timestamp\<close>, a string, and the sum over the
  dictionary's values raises TypeError on it, in every state of the store.
\<close>

theorem quality_check_raises_type_error:
  "run_comprehensive_quality_check now today st = Inl TypeError"
  by (simp add: run_comprehensive_quality_check_def Let_def check_consistency_def py_sum_def bindE_def)


lemma clamp_stock_id: "d_id (clamp_stock d) = d_id d"
  by (simp add: clamp_stock_def)

lemma orphaned_clamped: "orphaned (map clamp_stock ds) = orphaned ds"
proof -
  have "map d_id (map clamp_stock ds) = map d_id ds"
    by (simp add: clamp_stock_id)
  then show ?thesis
    by (simp only: orphaned_def fun_eq_iff map_is_Nil_conv) simp
qed



lemma clamp_stock_unchanged: "filter negative_stock ds = [] \<Longrightarrow> map clamp_stock ds = ds"
  by (induction ds) (auto simp add: clamp_stock_def split: if_splits)

lemma reset_date_unchanged: "filter (future_dated today) ss = [] \<Longrightarrow> map (reset_date today) ss = ss"
  by (induction ss) (auto simp add: reset_date_def split: if_splits)

lemma no_orphans_unchanged: "filter P ss = [] \<Longrightarrow> filter (\<lambda>s. \<not> P s) ss = ss"
  by (induction ss) (auto split: if_splits)

lemma fix_data_issues_commit:
  "fix_data_issues True now today st =
     (Inr \<lparr>fixes_applied =
             length (filter negative_stock (drugs st))
             + length (filter (orphaned (drugs st)) (sales st))
             + length (filter (future_dated today) (filter (\<lambda>s. \<not> orphaned (drugs st) s) (sales st))),
           details =
             map stock_fix (filter negative_stock (drugs st))
             @ map orphan_fix (filter (orphaned (drugs st)) (sales st))
             @ map (date_fix today)
                 (filter (future_dated today) (filter (\<lambda>s. \<not> orphaned (drugs st) s) (sales st))),
           f_timestamp = now\<rparr>,
      st\<lparr>drugs := map clamp_stock (drugs st),
         sales := map (reset_date today) (filter (\<lambda>s. \<not> orphaned (drugs st) s) (sales st))\<rparr>)"
proof (cases "filter negative_stock (drugs st) = []
      \<and> filter (orphaned (drugs st)) (sales st) = []
      \<and> filter (future_dated today) (filter (\<lambda>s. \<not> orphaned (drugs st) s) (sales st)) = []")
  case True
  then have n: "filter negative_stock (drugs st) = []"
    and o: "filter (orphaned (drugs st)) (sales st) = []"
    and f: "filter (future_dated today) (filter (\<lambda>s. \<not> orphaned (drugs st) s) (sales st)) = []"
    by blast+
  have d: "map clamp_stock (drugs st) = drugs st" using n by (rule clamp_stock_unchanged)
  have s1: "filter (\<lambda>s. \<not> orphaned (drugs st) s) (sales st) = sales st"
    using o by (rule no_orphans_unchanged)
  have s2: "map (reset_date today) (sales st) = sales st"
    using f unfolding s1 by (rule reset_date_unchanged)
  show ?thesis
    unfolding fix_data_issues_def Let_def orphaned_clamped d s1 s2 n o f
    using f [unfolded s1] by simp
next
  case False
  then show ?thesis
    unfolding fix_data_issues_def Let_def orphaned_clamped
    by (auto simp del: filter_filter)
qed



text \<open>
  Claim C9. When its commit succeeds, \<open>fix_data_issues\<close> leaves the table \<open>drugs\<close> with
  the same rows in the same order, where a drug whose stock quantity was negative has the
  stock quantity 0 and is otherwise unchanged, and a drug whose stock quantity was not
  negative is unchanged; for each drug whose stock quantity \<open>q\<close> was negative the returned
  details hold the fix record of table \<open>drugs\<close>, that drug's id, field
  \<open>stock_quantity\<close>, old value \<open>q\<close> and new value 0.
\<close>

theorem fix_data_issues_clamps_negative_stock:
  "\<exists>r. fst (fix_data_issues True now today st) = Inr r
     \<and> length (drugs (snd (fix_data_issues True now today st))) = length (drugs st)
     \<and> (\<forall>i<length (drugs st).
          (\<forall>q. stock_quantity (drugs st ! i) = Some q \<and> q < 0 \<longrightarrow>
             drugs (snd (fix_data_issues True now today st)) ! i
               = (drugs st ! i)\<lparr>stock_quantity := Some 0\<rparr>
             \<and> \<lparr>fix_table = ''drugs'', fix_id = d_id (drugs st ! i), fix_field = ''stock_quantity'',
                 old_value = FInt q, new_value = FInt 0, fix_type = ''Negative to zero''\<rparr>
               \<in> set (details r))
          \<and> (\<not> negative_stock (drugs st ! i) \<longrightarrow>
               drugs (snd (fix_data_issues True now today st)) ! i = drugs st ! i))"
proof -
  define r where
    "r = \<lparr>fixes_applied =
             length (filter negative_stock (drugs st))
             + length (filter (orphaned (drugs st)) (sales st))
             + length (filter (future_dated today) (filter (\<lambda>s. \<not> orphaned (drugs st) s) (sales st))),
           details =
             map stock_fix (filter negative_stock (drugs st))
             @ map orphan_fix (filter (orphaned (drugs st)) (sales st))
             @ map (date_fix today)
                 (filter (future_dated today) (filter (\<lambda>s. \<not> orphaned (drugs st) s) (sales st))),
           f_timestamp = now\<rparr>"
  have res: "fst (fix_data_issues True now today st) = Inr r"
    unfolding fix_data_issues_commit r_def by simp
  have dr: "drugs (snd (fix_data_issues True now today st)) = map clamp_stock (drugs st)"
    unfolding fix_data_issues_commit by simp
  have neg: "drugs (snd (fix_data_issues True now today st)) ! i
               = (drugs st ! i)\<lparr>stock_quantity := Some 0\<rparr>
             \<and> \<lparr>fix_table = ''drugs'', fix_id = d_id (drugs st ! i), fix_field = ''stock_quantity'',
                 old_value = FInt q, new_value = FInt 0, fix_type = ''Negative to zero''\<rparr>
               \<in> set (details r)"
    if i: "i < length (drugs st)" and q: "stock_quantity (drugs st ! i) = Some q" "q < 0" for i q
  proof -
    have n: "negative_stock (drugs st ! i)" using q by (simp add: negative_stock_def)
    have m: "drugs st ! i \<in> set (filter negative_stock (drugs st))"
      using i n by simp
    have "stock_fix (drugs st ! i) =
        \<lparr>fix_table = ''drugs'', fix_id = d_id (drugs st ! i), fix_field = ''stock_quantity'',
         old_value = FInt q, new_value = FInt 0, fix_type = ''Negative to zero''\<rparr>"
      using q by (simp add: stock_fix_def)
    then have "\<lparr>fix_table = ''drugs'', fix_id = d_id (drugs st ! i), fix_field = ''stock_quantity'',
         old_value = FInt q, new_value = FInt 0, fix_type = ''Negative to zero''\<rparr>
        \<in> set (map stock_fix (filter negative_stock (drugs st)))"
      using m by (metis image_eqI set_map)
    then have "\<lparr>fix_table = ''drugs'', fix_id = d_id (drugs st ! i), fix_field = ''stock_quantity'',
         old_value = FInt q, new_value = FInt 0, fix_type = ''Negative to zero''\<rparr>
        \<in> set (details r)"
      by (simp add: r_def)
    moreover have "drugs (snd (fix_data_issues True now today st)) ! i
               = (drugs st ! i)\<lparr>stock_quantity := Some 0\<rparr>"
      unfolding dr using i n by (simp add: clamp_stock_def)
    ultimately show ?thesis by blast
  qed
  have pos: "drugs (snd (fix_data_issues True now today st)) ! i = drugs st ! i"
    if i: "i < length (drugs st)" and n: "\<not> negative_stock (drugs st ! i)" for i
    unfolding dr using i n by (simp add: clamp_stock_def)
  have len: "length (drugs (snd (fix_data_issues True now today st))) = length (drugs st)"
    unfolding dr by simp
  show ?thesis
    using res len neg pos by blast
qed

lemma py_round2_zero: "py_round2 0 = 0"
  by (simp add: py_round2_def round_half_even_def fl_def)

lemma completeness_dict_rate:
  "completeness_dict now t (length rws) (length (filter P rws)) =
     Completeness \<lparr>c_table = t, total_records = length rws,
       complete_records = length (filter P rws),
       completeness_rate =
         (if rws = [] then 0
          else py_round2 (percent_of (int (length (filter P rws))) (int (length rws)))),
       c_timestamp = now\<rparr>"
  by (simp add: completeness_dict_def py_round2_zero)

lemma completeness_dict_rounded:
  "rounded_to_two_decimals (spec_completeness P rws)
     (get_completeness_rate (completeness_dict now t (length rws) (length (filter P rws))))"
proof (cases "rws = []")
  case True
  have "rounded_to_two_decimals 0 (py_round2 0)"
    by (rule py_round2_rounded) simp
  then show ?thesis
    using True by (simp add: completeness_dict_def get_completeness_rate_def
        spec_completeness_def py_round2_zero)
next
  case False
  then have "0 < int (length rws)" by simp
  then have "rounded_to_two_decimals
      (of_int (int (length (filter P rws))) / of_int (int (length rws)) * 100)
      (py_round2 (percent_of (int (length (filter P rws))) (int (length rws))))"
    by (rule percent_rounded)
  then show ?thesis
    using False by (simp add: completeness_dict_rate get_completeness_rate_def
        spec_completeness_def)
qed

text \<open>
  Claim C8, as the code has it. For each of the three tables, \<open>check_completeness\<close>
  reports the number of rows, the number of rows whose checked fields are all non-null, and
  their ratio as a percentage, computed in floats and rounded to two decimals by Python's
  \<open>round\<close> (0 for an empty table): the rate is the double next to a number with two
  decimals that lies within half a hundredth, up to the float rounding error, of the exact
  percentage. The checked fields are the required fields of a drug and of a patient; of a
  sale they are transaction id, drug reference, sale date and total amount.
\<close>

theorem check_completeness_ratio:
  "check_completeness now st ''drugs'' =
     Completeness \<lparr>c_table = ''drugs'', total_records = length (drugs st),
       complete_records = length (filter spec_required_drug (drugs st)),
       completeness_rate =
         (if drugs st = [] then 0
          else py_round2 (percent_of (int (length (filter spec_required_drug (drugs st))))
                                     (int (length (drugs st))))),
       c_timestamp = now\<rparr>
   \<and> rounded_to_two_decimals (spec_completeness spec_required_drug (drugs st))
         (get_completeness_rate (check_completeness now st ''drugs''))
   \<and> check_completeness now st ''sales'' =
     Completeness \<lparr>c_table = ''sales'', total_records = length (sales st),
       complete_records = length (filter code_required_sale (sales st)),
       completeness_rate =
         (if sales st = [] then 0
          else py_round2 (percent_of (int (length (filter code_required_sale (sales st))))
                                     (int (length (sales st))))),
       c_timestamp = now\<rparr>
   \<and> rounded_to_two_decimals (spec_completeness code_required_sale (sales st))
         (get_completeness_rate (check_completeness now st ''sales''))
   \<and> check_completeness now st ''patients'' =
     Completeness \<lparr>c_table = ''patients'', total_records = length (patients st),
       complete_records = length (filter spec_required_patient (patients st)),
       completeness_rate =
         (if patients st = [] then 0
          else py_round2 (percent_of (int (length (filter spec_required_patient (patients st))))
                                     (int (length (patients st))))),
       c_timestamp = now\<rparr>
   \<and> rounded_to_two_decimals (spec_completeness spec_required_patient (patients st))
         (get_completeness_rate (check_completeness now st ''patients''))"
proof -
  have d: "(\<lambda>d. drug_code d \<noteq> None \<and> drug_name d \<noteq> None \<and> manufacturer d \<noteq> None
                \<and> d_unit_price d \<noteq> None) = spec_required_drug"
    by (simp add: fun_eq_iff spec_required_drug_def)
  have s: "(\<lambda>s. transaction_id s \<noteq> None \<and> drug_id s \<noteq> None \<and> sale_date s \<noteq> None
                \<and> total_amount s \<noteq> None) = code_required_sale"
    by (simp add: fun_eq_iff code_required_sale_def)
  have p: "(\<lambda>p. first_name p \<noteq> None \<and> last_name p \<noteq> None \<and> date_of_birth p \<noteq> None)
              = spec_required_patient"
    by (simp add: fun_eq_iff spec_required_patient_def)
  have cd: "check_completeness now st ''drugs'' = completeness_dict now ''drugs'' (length (drugs st))
      (length (filter spec_required_drug (drugs st)))"
    unfolding check_completeness_def d by simp
  have cs: "check_completeness now st ''sales'' = completeness_dict now ''sales'' (length (sales st))
      (length (filter code_required_sale (sales st)))"
    unfolding check_completeness_def s by simp
  have cp: "check_completeness now st ''patients'' = completeness_dict now ''patients''
      (length (patients st)) (length (filter spec_required_patient (patients st)))"
    unfolding check_completeness_def p by simp
  show ?thesis
    unfolding cd cs cp
    using completeness_dict_rounded [of spec_required_drug "drugs st" now "''drugs''"]
      completeness_dict_rounded [of code_required_sale "sales st" now "''sales''"]
      completeness_dict_rounded [of spec_required_patient "patients st" now "''patients''"]
    by (simp only: completeness_dict_rate simp_thms)
qed

theorem check_completeness_sales_counterexample:
  "get_completeness_rate
     (check_completeness ''2026-01-01T00:00:00''
        \<lparr>drugs = [],
         sales = [\<lparr>s_id = 1, transaction_id = Some ''T1'', drug_id = Some 1, sale_date = Some 20000,
                   quantity = None, s_unit_price = Some 2, discount = None, total_amount = Some 10\<rparr>],
         patients = []\<rparr> ''sales'') = 100
   \<and> spec_completeness spec_required_sale
        [\<lparr>s_id = 1, transaction_id = Some ''T1'', drug_id = Some 1, sale_date = Some 20000,
          quantity = None, s_unit_price = Some 2, discount = None, total_amount = Some 10\<rparr>] = 0"
proof -
  have "py_round2 (percent_of 1 1) = 100"
    by (rule percent_of_same) simp
  then show ?thesis
    by (simp add: check_completeness_def completeness_dict_def get_completeness_rate_def
        spec_completeness_def spec_required_sale_def)
qed

lemma double_14_37: "fl (1437 / 100) = 8089590830664253 / 562949953421312"
  by code_simp

theorem check_completeness_ratio_witness:
  "check_completeness ''2026-01-01T00:00:00'' sales_store_example ''sales''
     = Completeness \<lparr>c_table = ''sales'', total_records = 160, complete_records = 23,
         completeness_rate = 8089590830664253 / 562949953421312,
         c_timestamp = ''2026-01-01T00:00:00''\<rparr>
   \<and> spec_completeness code_required_sale (sales sales_store_example) = 14375 / 1000"
proof -
  have n: "length (sales sales_store_example) = 160"
    by (simp add: sales_store_example_def)
  have c: "length (filter code_required_sale (sales sales_store_example)) = 23"
    by (simp add: sales_store_example_def sale_complete_example_def code_required_sale_def)
  have ne: "sales sales_store_example \<noteq> []"
    using n by auto
  have r: "py_round2 (percent_of 23 160) = fl (1437 / 100)"
    by code_simp
  have sp: "spec_completeness code_required_sale (sales sales_store_example) = 14375 / 1000"
    using ne by (simp add: spec_completeness_def n c)
  show ?thesis
    using check_completeness_ratio [of "''2026-01-01T00:00:00''" sales_store_example] ne sp
    by (simp add: n c r double_14_37)
qed



theorem fix_data_issues_clamps_negative_stock_witness:
  "drugs (snd (fix_data_issues True ''2026-01-01T00:00:00'' 20000
        \<lparr>drugs = [\<lparr>d_id = 7, drug_code = Some ''D7'', drug_name = Some ''Aspirin'',
                    manufacturer = Some ''Acme'', d_unit_price = Some 2, stock_quantity = Some (- 5),
                    expiry_date = None\<rparr>],
         sales = [], patients = []\<rparr>)) ! 0
     = \<lparr>d_id = 7, drug_code = Some ''D7'', drug_name = Some ''Aspirin'',
        manufacturer = Some ''Acme'', d_unit_price = Some 2, stock_quantity = Some 0,
        expiry_date = None\<rparr>
   \<and> (\<exists>r. fst (fix_data_issues True ''2026-01-01T00:00:00'' 20000
        \<lparr>drugs = [\<lparr>d_id = 7, drug_code = Some ''D7'', drug_name = Some ''Aspirin'',
                    manufacturer = Some ''Acme'', d_unit_price = Some 2, stock_quantity = Some (- 5),
                    expiry_date = None\<rparr>],
         sales = [], patients = []\<rparr>) = Inr r
        \<and> \<lparr>fix_table = ''drugs'', fix_id = 7, fix_field = ''stock_quantity'',
            old_value = FInt (- 5), new_value = FInt 0, fix_type = ''Negative to zero''\<rparr>
          \<in> set (details r))"
proof -
  let ?st = "\<lparr>drugs = [\<lparr>d_id = 7, drug_code = Some ''D7'', drug_name = Some ''Aspirin'',
                    manufacturer = Some ''Acme'', d_unit_price = Some 2, stock_quantity = Some (- 5),
                    expiry_date = None\<rparr>],
         sales = [], patients = []\<rparr>"
  obtain r where r: "fst (fix_data_issues True ''2026-01-01T00:00:00'' 20000 ?st) = Inr r"
    and a: "\<forall>i<length (drugs ?st).
          (\<forall>q. stock_quantity (drugs ?st ! i) = Some q \<and> q < 0 \<longrightarrow>
             drugs (snd (fix_data_issues True ''2026-01-01T00:00:00'' 20000 ?st)) ! i
               = (drugs ?st ! i)\<lparr>stock_quantity := Some 0\<rparr>
             \<and> \<lparr>fix_table = ''drugs'', fix_id = d_id (drugs ?st ! i), fix_field = ''stock_quantity'',
                 old_value = FInt q, new_value = FInt 0, fix_type = ''Negative to zero''\<rparr>
               \<in> set (details r))
          \<and> (\<not> negative_stock (drugs ?st ! i) \<longrightarrow>
               drugs (snd (fix_data_issues True ''2026-01-01T00:00:00'' 20000 ?st)) ! i = drugs ?st ! i)"
    using fix_data_issues_clamps_negative_stock [of "''2026-01-01T00:00:00''" 20000 ?st] by blast
  have "0 < length (drugs ?st)" by simp
  moreover have "stock_quantity (drugs ?st ! 0) = Some (- 5) \<and> (- 5 :: int) < 0" by simp
  ultimately have "drugs (snd (fix_data_issues True ''2026-01-01T00:00:00'' 20000 ?st)) ! 0
               = (drugs ?st ! 0)\<lparr>stock_quantity := Some 0\<rparr>
             \<and> \<lparr>fix_table = ''drugs'', fix_id = d_id (drugs ?st ! 0), fix_field = ''stock_quantity'',
                 old_value = FInt (- 5), new_value = FInt 0, fix_type = ''Negative to zero''\<rparr>
               \<in> set (details r)"
    using a by blast
  then show ?thesis using r by simp
qed

section \<open>Properties of the transforms and of the validator\<close>

lemma cell_at_update: "cell_at (AList.update c v r) k = (if k = c then v else cell_at r k)"
  by (simp add: cell_at_def update_conv')

lemma nonnull_dropna: "dropna labels df = Inr d \<Longrightarrow> k \<in> set labels \<Longrightarrow> nonnull k d"
  by (auto simp add: dropna_def nonnull_def split: if_splits)

lemma nonnull_assign: "c \<noteq> k \<Longrightarrow> nonnull k df \<Longrightarrow> nonnull k (assign c dt f df)"
  by (auto simp add: assign_def nonnull_def cell_at_update)

lemma nonnull_filter: "nonnull k df \<Longrightarrow> nonnull k (df\<lparr>rows := filter P (rows df)\<rparr>)"
  by (simp add: nonnull_def)



lemma nonnull_drugs_defaults:
  "k \<noteq> ''category'' \<Longrightarrow> k \<noteq> ''min_stock_level'' \<Longrightarrow> k \<noteq> ''max_stock_level'' \<Longrightarrow>
   nonnull k d \<Longrightarrow> nonnull k (drugs_defaults d)"
  by (simp add: drugs_defaults_def Let_def nonnull_assign)

lemma nonnull_drugs_derive:
  "drugs_derive env d = Inr out \<Longrightarrow> k \<noteq> ''stock_value'' \<Longrightarrow> k \<noteq> ''days_to_expiry'' \<Longrightarrow>
   nonnull k d \<Longrightarrow> nonnull k out"
  by (auto simp add: drugs_derive_def Let_def nonnull_assign split: if_splits)

lemma transform_drugs_keys:
  assumes "transform_drugs env df = Inr out"
  shows "nonnull ''drug_code'' out \<and> nonnull ''drug_name'' out"
proof -
  obtain d where d: "drugs_dropna (drugs_coerce env df) = Inr d"
    and o: "drugs_derive env (drugs_defaults d) = Inr out"
    using assms by (auto simp add: transform_drugs_def bindE_def split: sum.splits)
  have "nonnull ''drug_code'' d" "nonnull ''drug_name'' d"
    using d by (simp_all add: drugs_dropna_def nonnull_dropna)
  then have "nonnull ''drug_code'' (drugs_defaults d)" "nonnull ''drug_name'' (drugs_defaults d)"
    by (simp_all add: nonnull_drugs_defaults)
  then show ?thesis
    using o by (simp add: nonnull_drugs_derive)
qed

lemma sales_filter_keys:
  assumes "sales_filter d = Inr out"
  shows "nonnull ''transaction_id'' out \<and> nonnull ''drug_id'' out \<and> nonnull ''sale_date'' out
       \<and> nonnull ''quantity'' out"
proof -
  obtain d1 where d1: "dropna [''transaction_id'', ''drug_id'', ''sale_date''] d = Inr d1"
    and o: "out = d1\<lparr>rows := filter (\<lambda>r. case cell_at r ''quantity'' of Num x \<Rightarrow> 0 < x | _ \<Rightarrow> False) (rows d1)\<rparr>"
    using assms by (auto simp add: sales_filter_def bindE_def split: sum.splits if_splits)
  have "nonnull ''transaction_id'' d1" "nonnull ''drug_id'' d1" "nonnull ''sale_date'' d1"
    using d1 by (simp_all add: nonnull_dropna)
  then have "nonnull ''transaction_id'' out" "nonnull ''drug_id'' out" "nonnull ''sale_date'' out"
    unfolding o by (simp_all add: nonnull_filter)
  moreover have "nonnull ''quantity'' out"
    unfolding o by (auto simp add: nonnull_def)
  ultimately show ?thesis by blast
qed

lemma transform_sales_keys:
  assumes "transform_sales env df = Inr out"
  shows "nonnull ''transaction_id'' out \<and> nonnull ''drug_id'' out \<and> nonnull ''sale_date'' out
       \<and> nonnull ''quantity'' out"
proof -
  obtain d where "sales_filter d = Inr out"
    using assms by (auto simp add: transform_sales_def bindE_def split: sum.splits)
  then show ?thesis by (rule sales_filter_keys)
qed

lemma nonnull_patients_codes:
  "k \<noteq> ''patient_code'' \<Longrightarrow> nonnull k d \<Longrightarrow> nonnull k (patients_codes env d)"
  by (auto simp add: patients_codes_def nonnull_def cell_at_update dest: set_zip_rightD)

lemma transform_patients_keys:
  assumes "transform_patients env df = Inr out"
  shows "nonnull ''first_name'' out \<and> nonnull ''last_name'' out \<and> nonnull ''date_of_birth'' out"
proof -
  obtain d3 d4 where d4: "patients_dropna d3 = Inr d4" and o: "out = patients_codes env d4"
    using assms by (auto simp add: transform_patients_def bindE_def split: sum.splits)
  have "nonnull ''first_name'' d4" "nonnull ''last_name'' d4" "nonnull ''date_of_birth'' d4"
    using d4 by (simp_all add: patients_dropna_def nonnull_dropna)
  then show ?thesis
    unfolding o by (simp add: nonnull_patients_codes)
qed

text \<open>
  Claim C1, as the code has it. No row of the output of \<open>transform_drugs\<close> misses the drug
  code or the drug name; no row of the output of \<open>transform_sales\<close> misses the transaction
  id, the drug reference, the sale date or the quantity; no row of the output of
  \<open>transform_patients\<close> misses the first name, the last name or the date of birth. (A drug
  without manufacturer or unit price is kept.)
\<close>

theorem transforms_drop_rows_missing_key_fields:
  "(labels_distinct drugs_column_mapping df \<and> transform_drugs env df = Inr out \<longrightarrow>
      (\<forall>r \<in> set (rows out). cell_at r ''drug_code'' \<noteq> NA \<and> cell_at r ''drug_name'' \<noteq> NA))
   \<and> (labels_distinct sales_column_mapping df \<and> transform_sales env df = Inr out \<longrightarrow>
      (\<forall>r \<in> set (rows out). cell_at r ''transaction_id'' \<noteq> NA \<and> cell_at r ''drug_id'' \<noteq> NA
                            \<and> cell_at r ''sale_date'' \<noteq> NA \<and> cell_at r ''quantity'' \<noteq> NA))
   \<and> (labels_distinct patients_column_mapping df \<and> transform_patients env df = Inr out \<longrightarrow>
      (\<forall>r \<in> set (rows out). cell_at r ''first_name'' \<noteq> NA \<and> cell_at r ''last_name'' \<noteq> NA
                            \<and> cell_at r ''date_of_birth'' \<noteq> NA))"
  using transform_drugs_keys [of env df out] transform_sales_keys [of env df out]
    transform_patients_keys [of env df out]
  by (simp add: nonnull_def)


text \<open>
  Claim C5. The quality score of \<open>validate_data_quality\<close> is 0 for a record set without
  rows and otherwise (total records - number of issues) / total records * 100, computed in
  floats and rounded to two decimals by Python's \<open>round\<close>: it is the double next to a
  number with two decimals that lies within half a hundredth, up to the float rounding
  error, of the exact quotient. It is 100 for a record set with rows and no issue.
\<close>

theorem validation_quality_score:
  "v_total_records (validate_data_quality env now df data_type) = length (rows df)
   \<and> v_invalid_records (validate_data_quality env now df data_type)
       = length (v_issues (validate_data_quality env now df data_type))
   \<and> v_quality_score (validate_data_quality env now df data_type) =
       (if rows df = [] then 0
        else py_round2 (percent_of
               (int (length (rows df))
                 - int (length (v_issues (validate_data_quality env now df data_type))))
               (int (length (rows df)))))
   \<and> (rows df = [] \<longrightarrow> v_quality_score (validate_data_quality env now df data_type) = 0)
   \<and> (rows df \<noteq> [] \<longrightarrow>
        rounded_to_two_decimals
          ((of_nat (length (rows df))
             - of_nat (length (v_issues (validate_data_quality env now df data_type))))
           / of_nat (length (rows df)) * 100)
          (v_quality_score (validate_data_quality env now df data_type)))
   \<and> (rows df \<noteq> [] \<and> v_issues (validate_data_quality env now df data_type) = [] \<longrightarrow>
        v_quality_score (validate_data_quality env now df data_type) = 100)"
proof -
  define R where "R = validate_data_quality env now df data_type"
  define n where "n = length (rows df)"
  define k where "k = length (v_issues R)"
  have tot: "v_total_records R = n"
    by (simp add: R_def n_def validate_data_quality_def Let_def)
  have inv: "v_invalid_records R = k"
    by (simp add: R_def k_def validate_data_quality_def Let_def)
  have sc: "v_quality_score R =
      (if 0 < n then py_round2 (percent_of (int n - int k) (int n)) else 0)"
    by (simp add: R_def n_def k_def validate_data_quality_def Let_def)
  have a: "v_quality_score R =
      (if rows df = [] then 0 else py_round2 (percent_of (int n - int k) (int n)))"
    unfolding sc by (simp add: n_def)
  have b: "v_quality_score R = 0" if "rows df = []"
    using that unfolding a by simp
  have c: "v_quality_score R = 100" if "rows df \<noteq> []" "v_issues R = []"
  proof -
    have "k = 0" using that(2) by (simp add: k_def)
    moreover have "0 < int n" using that(1) by (simp add: n_def)
    ultimately show ?thesis
      unfolding sc using percent_of_same [of "int n"] by simp
  qed
  have d: "rounded_to_two_decimals ((of_nat n - of_nat k) / of_nat n * 100) (v_quality_score R)"
    if "rows df \<noteq> []"
  proof -
    have n0: "0 < int n" using that by (simp add: n_def)
    have "rounded_to_two_decimals (of_int (int n - int k) / of_int (int n) * 100)
        (py_round2 (percent_of (int n - int k) (int n)))"
      using n0 by (rule percent_rounded)
    then show ?thesis
      using n0 unfolding sc by simp
  qed
  show ?thesis
    using tot inv a b c d unfolding R_def n_def k_def by blast
qed

theorem transform_drugs_keeps_incomplete_drug_counterexample:
  "result_cells [''drug_code'', ''drug_name'', ''manufacturer'', ''unit_price'']
     (transform_drugs demo_env drugs_example) = Inr [[Str ''D1'', Str ''Aspirin'', NA, NA]]"
  by code_simp

lemma result_cells_Inr:
  "result_cells cols res = Inr (x # xs) \<Longrightarrow> \<exists>out. res = Inr out \<and> rows out \<noteq> []"
  by (cases res) (auto simp add: result_cells_def cells_of_def)

theorem transforms_drop_rows_missing_key_fields_witness:
  "labels_distinct drugs_column_mapping drugs_example
   \<and> (\<exists>out. transform_drugs demo_env drugs_example = Inr out \<and> rows out \<noteq> []
        \<and> (\<forall>r \<in> set (rows out). cell_at r ''drug_code'' \<noteq> NA \<and> cell_at r ''drug_name'' \<noteq> NA))
   \<and> labels_distinct sales_column_mapping sales_example
   \<and> (\<exists>out. transform_sales demo_env sales_example = Inr out \<and> rows out \<noteq> []
        \<and> (\<forall>r \<in> set (rows out). cell_at r ''transaction_id'' \<noteq> NA \<and> cell_at r ''drug_id'' \<noteq> NA
                              \<and> cell_at r ''sale_date'' \<noteq> NA \<and> cell_at r ''quantity'' \<noteq> NA))
   \<and> labels_distinct patients_column_mapping patients_clean_example
   \<and> (\<exists>out. transform_patients demo_env patients_clean_example = Inr out \<and> rows out \<noteq> []
        \<and> (\<forall>r \<in> set (rows out). cell_at r ''first_name'' \<noteq> NA \<and> cell_at r ''last_name'' \<noteq> NA
                              \<and> cell_at r ''date_of_birth'' \<noteq> NA))"
proof -
  have ld: "labels_distinct drugs_column_mapping drugs_example" by code_simp
  have ls: "labels_distinct sales_column_mapping sales_example" by code_simp
  have lp: "labels_distinct patients_column_mapping patients_clean_example" by code_simp
  have "result_cells [''drug_code''] (transform_drugs demo_env drugs_example) = Inr [[Str ''D1'']]"
    by code_simp
  then obtain od where od: "transform_drugs demo_env drugs_example = Inr od" "rows od \<noteq> []"
    using result_cells_Inr by blast
  have "result_cells [''transaction_id''] (transform_sales demo_env sales_example) = Inr [[Str ''T1'']]"
    by code_simp
  then obtain os where os: "transform_sales demo_env sales_example = Inr os" "rows os \<noteq> []"
    using result_cells_Inr by blast
  have "result_cells [''first_name'', ''age'', ''patient_code'']
          (transform_patients demo_env patients_clean_example)
        = Inr [[Str ''Ann'', Num 34, Str ''PAT-00000000'']]"
    by code_simp
  then obtain op where op: "transform_patients demo_env patients_clean_example = Inr op" "rows op \<noteq> []"
    using result_cells_Inr by blast
  show ?thesis
    using ld ls lp od os op
      transforms_drop_rows_missing_key_fields [of drugs_example demo_env od]
      transforms_drop_rows_missing_key_fields [of sales_example demo_env os]
      transforms_drop_rows_missing_key_fields [of patients_clean_example demo_env op]
    by simp
qed

text \<open>
  Claim C3. \<open>transform_patients\<close> raises on a record set with readable columns in which
  one row has a date of birth that does not parse: the age is computed before the rows are
  dropped, and the cast of the age column to integers fails on the missing value.
\<close>

theorem transform_patients_raises_on_unparsed_birth_date:
  "transform_patients demo_env patients_example = Inl IntCastingNaNError"
  by code_simp



lemma double_99_83: "fl (9983 / 100) = 7024911731256197 / 70368744177664"
  by code_simp

theorem validation_quality_score_witness:
  "v_quality_score (validate_data_quality demo_env ''2026-01-01T00:00:00''
       drugs_large_example ''drugs'') = 7024911731256197 / 70368744177664
   \<and> v_total_records (validate_data_quality demo_env ''2026-01-01T00:00:00''
       drugs_large_example ''drugs'') = 4000
   \<and> v_invalid_records (validate_data_quality demo_env ''2026-01-01T00:00:00''
       drugs_large_example ''drugs'') = 7"
proof -
  have n: "length (rows drugs_large_example) = 4000"
    by (simp add: drugs_large_example_def)
  have k: "length (v_issues (validate_data_quality demo_env ''2026-01-01T00:00:00''
       drugs_large_example ''drugs'')) = 7"
    by (simp add: validate_data_quality_def Let_def field_issue_def required_fields_def
        numeric_fields_def date_fields_def drugs_large_example_def drug_row_example_def
        cell_at_def to_numeric_cell_def demo_env_def)
  have ne: "rows drugs_large_example \<noteq> []"
    using n by auto
  have r: "py_round2 (percent_of 3993 4000) = fl (9983 / 100)"
    by code_simp
  show ?thesis
    using validation_quality_score [of demo_env "''2026-01-01T00:00:00''"
        drugs_large_example "''drugs''"] ne
    by (simp add: n k r double_99_83)
qed

end
